theory Spec2Isabelle
  imports Complex_Main "HOL-Library.Log_Nat"
begin

section \<open>Data model of the router (src/ai_router.py)\<close>

text \<open>
  Python ints are \<open>int\<close>; \<open>bytes\<close> are lists of bytes and a \<open>str\<close> is the list of the
  bytes of its UTF-8 encoding, both of type \<open>string\<close>. A Python float is the real
  number it denotes; the arithmetic of the selection weights, where rounding decides
  the result, is the double-precision arithmetic defined below. Clock readings
  (\<open>time.time()\<close>, \<open>datetime.now()\<close>) and the draw of \<open>random.choice\<close> are arguments
  of the functions that read them.
\<close>

type_synonym bytes = string

datatype ProviderStatus = HEALTHY | UNHEALTHY | UNKNOWN

record AIProvider =
  name :: string
  base_url :: string
  api_key :: string
  models :: "string list"
  weight :: int
  status :: ProviderStatus
  last_check :: real
  response_time :: real
  error_count :: int

record ChatRequest =
  model :: string
  messages :: "(string \<times> string) list list"
  max_tokens :: "int option"
  temperature :: "real option"
  stream :: "bool option"
  x_use_asgi_streaming :: "bool option"

text \<open>
  The exceptions the router distinguishes: the two httpx classes it catches by name,
  the IndexError of \<open>provider.models[0]\<close> on an empty list, the KeyError of a missing
  dictionary key (with the key), the TypeError of an item assignment, FastAPI's
  HTTPException (status code, detail) and any other exception with its message.
\<close>

datatype exn =
  ConnectError string
  | TimeoutException string
  | IndexError string
  | KeyError string
  | TypeError string
  | HTTPException int string
  | OtherException string

section \<open>Model name mapping\<close>

text \<open>The table \<open>model_mapping\<close> of \<open>map_model_name\<close>: alias, then provider name.\<close>

definition model_mapping :: "string \<rightharpoonup> (string \<rightharpoonup> string)" where
  "model_mapping =
     [''gpt-3.5-turbo'' \<mapsto>
        [''deepseek'' \<mapsto> ''deepseek-chat'',
         ''lingyiwanwu'' \<mapsto> ''yi-34b-chat'',
         ''ollama'' \<mapsto> ''llama3.2''],
      ''gpt-4'' \<mapsto>
        [''deepseek'' \<mapsto> ''deepseek-chat'',
         ''lingyiwanwu'' \<mapsto> ''yi-34b-chat'',
         ''ollama'' \<mapsto> ''llama3.2''],
      ''code-assistant'' \<mapsto>
        [''deepseek'' \<mapsto> ''deepseek-coder'',
         ''lingyiwanwu'' \<mapsto> ''yi-34b-chat'',
         ''ollama'' \<mapsto> ''codegemma'']]"

text \<open>\<open>provider.models[0]\<close>: raises IndexError on an empty list.\<close>

definition models_0 :: "AIProvider \<Rightarrow> exn + string" where
  "models_0 provider =
     (case models provider of
        [] \<Rightarrow> Inl (IndexError ''list index out of range'')
      | m # _ \<Rightarrow> Inr m)"

text \<open>
  \<open>SmartAIRouter.map_model_name\<close>. In
  \<open>model_mapping[requested_model].get(provider.name, provider.models[0])\<close> Python
  evaluates the default argument before the lookup, so the IndexError of an empty
  model list comes first.
\<close>

definition map_model_name :: "string \<Rightarrow> AIProvider \<Rightarrow> exn + string" where
  "map_model_name requested_model provider =
     (case model_mapping requested_model of
        Some translations \<Rightarrow>
          (case models_0 provider of
             Inl e \<Rightarrow> Inl e
           | Inr default_model \<Rightarrow>
               Inr (case translations (name provider) of
                      Some m \<Rightarrow> m
                    | None \<Rightarrow> default_model))
      | None \<Rightarrow>
          if requested_model \<in> set (models provider) then Inr requested_model
          else models_0 provider)"

text \<open>\<open>LowLevelASGIStreamer.map_model_name\<close>: the same table and the same three cases.\<close>

definition asgi_map_model_name :: "string \<Rightarrow> AIProvider \<Rightarrow> exn + string" where
  "asgi_map_model_name requested_model provider =
     (case model_mapping requested_model of
        Some translations \<Rightarrow>
          (case models_0 provider of
             Inl e \<Rightarrow> Inl e
           | Inr default_model \<Rightarrow>
               Inr (case translations (name provider) of
                      Some m \<Rightarrow> m
                    | None \<Rightarrow> default_model))
      | None \<Rightarrow>
          if requested_model \<in> set (models provider) then Inr requested_model
          else models_0 provider)"

section \<open>Double-precision arithmetic\<close>

text \<open>
  The floats of \<open>select_provider\<close> are IEEE binary64 numbers: every operation returns
  the exact result rounded to 53 significant bits, to nearest, ties to the even
  significand. \<open>binary_exponent x\<close> is the \<open>e\<close> with \<open>2^e \<le> |x| < 2^(e+1)\<close>. The exponent
  range is not bounded here: the model is binary64 as long as no magnitude reaches
  \<open>2^1024\<close> (where Python gives \<open>inf\<close> or raises OverflowError); no result of
  \<open>select_provider\<close> is small enough to be subnormal.
\<close>

definition pow2 :: "int \<Rightarrow> real" where
  "pow2 e = (if 0 \<le> e then 2 ^ nat e else 1 / 2 ^ nat (- e))"

definition binary_exponent :: "real \<Rightarrow> int" where
  "binary_exponent x =
     (if 1 \<le> \<bar>x\<bar> then bitlen \<lfloor>\<bar>x\<bar>\<rfloor> - 1 else - bitlen (\<lceil>1 / \<bar>x\<bar>\<rceil> - 1))"

definition round_half_even :: "real \<Rightarrow> int" where
  "round_half_even y =
     (let n = \<lfloor>y\<rfloor>; r = y - of_int n
      in if r < 1 / 2 then n else if 1 / 2 < r then n + 1 else if even n then n else n + 1)"

definition round_double :: "real \<Rightarrow> real" where
  "round_double x =
     (if x = 0 then 0
      else sgn x * of_int (round_half_even (\<bar>x\<bar> / pow2 (binary_exponent x - 52)))
             * pow2 (binary_exponent x - 52))"

text \<open>
  Float multiplication and subtraction, the conversion of an int that meets a float
  in a product, and the float the literal \<open>0.1\<close> denotes.
\<close>

definition float_mul :: "real \<Rightarrow> real \<Rightarrow> real" where
  "float_mul a b = round_double (a * b)"

definition float_sub :: "real \<Rightarrow> real \<Rightarrow> real" where
  "float_sub a b = round_double (a - b)"

definition float_of_int :: "int \<Rightarrow> real" where
  "float_of_int i = round_double (of_int i)"

definition lit_0_1 :: real where
  "lit_0_1 = round_double (1 / 10)"

section \<open>Provider selection\<close>

text \<open>\<open>int(x)\<close> on a float truncates towards zero.\<close>

definition py_int :: "real \<Rightarrow> int" where
  "py_int x = (if 0 \<le> x then \<lfloor>x\<rfloor> else \<lceil>x\<rceil>)"

text \<open>
  The loop body of step 3 of \<open>select_provider\<close>: the weight after the two
  adjustments, in double precision. The latency factor is applied only when
  \<open>response_time > 0\<close>; the int \<open>weight\<close> becomes a float in its first product.
\<close>

definition time_factor :: "AIProvider \<Rightarrow> real" where
  "time_factor provider = max lit_0_1 (float_sub 2 (response_time provider))"

definition error_factor :: "AIProvider \<Rightarrow> real" where
  "error_factor provider =
     max lit_0_1 (float_sub 1 (float_mul (float_of_int (error_count provider)) lit_0_1))"

definition adjusted_weight :: "AIProvider \<Rightarrow> real" where
  "adjusted_weight provider =
     (let w = float_of_int (weight provider);
          w = (if response_time provider > 0 then float_mul w (time_factor provider) else w)
      in float_mul w (error_factor provider))"

text \<open>
  The providers on which step 3 stays below the overflow threshold: no magnitude
  of the computation reaches \<open>2^1024\<close>.
\<close>

definition in_double_range :: "AIProvider \<Rightarrow> bool" where
  "in_double_range provider \<longleftrightarrow>
     \<bar>weight provider\<bar> < 2 ^ 300 \<and> \<bar>error_count provider\<bar> < 2 ^ 300
     \<and> \<bar>response_time provider\<bar> < 2 ^ 300"

text \<open>\<open>[provider] * max(1, int(weight))\<close>\<close>

definition copies :: "AIProvider \<Rightarrow> nat" where
  "copies provider = nat (max 1 (py_int (adjusted_weight provider)))"

definition weighted_providers :: "AIProvider list \<Rightarrow> AIProvider list" where
  "weighted_providers candidates =
     concat (map (\<lambda>provider. replicate (copies provider) provider) candidates)"

text \<open>
  \<open>random.choice(seq)\<close> returns the element at a uniformly drawn position of a
  non-empty sequence; the draw is the argument \<open>rnd\<close>, reduced to a position.
\<close>

definition random_choice :: "'a list \<Rightarrow> nat \<Rightarrow> 'a" where
  "random_choice seq rnd = seq ! (rnd mod length seq)"

definition healthy_filter :: "AIProvider list \<Rightarrow> AIProvider list" where
  "healthy_filter providers =
     filter (\<lambda>p. status p = HEALTHY \<and> error_count p < 5) providers"

definition healthy_providers :: "AIProvider list \<Rightarrow> AIProvider list" where
  "healthy_providers providers =
     (if healthy_filter providers = [] then providers else healthy_filter providers)"

definition model_compatible_providers :: "AIProvider list \<Rightarrow> ChatRequest \<Rightarrow> AIProvider list" where
  "model_compatible_providers providers request =
     (let compatible = filter (\<lambda>p. model request \<in> set (models p)) (healthy_providers providers)
      in if compatible = [] then healthy_providers providers else compatible)"

definition select_provider :: "AIProvider list \<Rightarrow> ChatRequest \<Rightarrow> nat \<Rightarrow> AIProvider option" where
  "select_provider providers request rnd =
     (if model_compatible_providers providers request \<noteq> []
      then Some (random_choice (weighted_providers (model_compatible_providers providers request)) rnd)
      else None)"

text \<open>The provider list built by \<open>SmartAIRouter.__init__\<close>.\<close>

definition deepseek :: AIProvider where
  "deepseek =
     \<lparr>name = ''deepseek'', base_url = ''http://openai-forward-proxy:8000/deepseek/v1'',
      api_key = ''sk-878a5319c7b14bc48109e19315361b7f'',
      models = [''deepseek-chat'', ''deepseek-coder''], weight = 3,
      status = UNKNOWN, last_check = 0, response_time = 0, error_count = 0\<rparr>"

definition lingyiwanwu :: AIProvider where
  "lingyiwanwu =
     \<lparr>name = ''lingyiwanwu'', base_url = ''http://openai-forward-proxy:8000/lingyiwanwu/v1'',
      api_key = ''72ebf8a6191e45bab0f646659c8cb121'',
      models = [''yi-34b-chat'', ''yi-6b-chat''], weight = 3,
      status = UNKNOWN, last_check = 0, response_time = 0, error_count = 0\<rparr>"

definition ollama :: AIProvider where
  "ollama =
     \<lparr>name = ''ollama'', base_url = ''http://openai-forward-proxy:8000/ollama/v1'',
      api_key = ''ollama-local-key'',
      models = [''llama3.2'', ''qwen2:7b'', ''codegemma''], weight = 2,
      status = UNKNOWN, last_check = 0, response_time = 0, error_count = 0\<rparr>"

definition init_providers :: "AIProvider list" where
  "init_providers = [deepseek, lingyiwanwu, ollama]"

section \<open>Health probe\<close>

text \<open>
  What the probe request of \<open>health_check_provider\<close> does: it returns a response
  with a status code, or the call raises.
\<close>

datatype probe = ProbeResponse int | ProbeRaises exn

text \<open>
  \<open>SmartAIRouter.health_check_provider\<close>. \<open>start_time\<close>, \<open>t_response\<close> and \<open>t_check\<close>
  are the readings of \<open>time.time()\<close> before the probe, when the response arrived and
  when \<open>last_check\<close> is stored. Building the test request reads
  \<open>provider.models[0]\<close> inside the \<open>try\<close>.
\<close>

definition probe_failed :: "AIProvider \<Rightarrow> real \<Rightarrow> bool \<times> AIProvider" where
  "probe_failed provider t_check =
     (False, provider\<lparr>status := UNHEALTHY, error_count := error_count provider + 1,
                      last_check := t_check\<rparr>)"

definition health_check_provider ::
  "AIProvider \<Rightarrow> probe \<Rightarrow> real \<Rightarrow> real \<Rightarrow> real \<Rightarrow> bool \<times> AIProvider" where
  "health_check_provider provider outcome start_time t_response t_check =
     (case models_0 provider of
        Inl e \<Rightarrow> probe_failed provider t_check
      | Inr test_model \<Rightarrow>
          (case outcome of
             ProbeRaises e \<Rightarrow> probe_failed provider t_check
           | ProbeResponse status_code \<Rightarrow>
               (let provider = provider\<lparr>response_time := t_response - start_time,
                                         last_check := t_check\<rparr>
                in if status_code = 200
                   then (True, provider\<lparr>status := HEALTHY, error_count := 0\<rparr>)
                   else (False, provider\<lparr>status := UNHEALTHY,
                                         error_count := error_count provider + 1\<rparr>))))"

section \<open>Rendering of exceptions\<close>

text \<open>The decimal digit of a number below 10.\<close>

definition digit_char :: "nat \<Rightarrow> char" where
  "digit_char n = ''0123456789'' ! n"

fun str_nat :: "nat \<Rightarrow> string" where
  "str_nat n = (if n < 10 then [digit_char n] else str_nat (n div 10) @ [digit_char (n mod 10)])"

declare str_nat.simps [simp del]

definition str_int :: "int \<Rightarrow> string" where
  "str_int i = (if i < 0 then CHR ''-'' # str_nat (nat (- i)) else str_nat (nat i))"

text \<open>
  \<open>repr\<close> of a \<open>str\<close>: in single quotes, or in double quotes when the text has a single
  quote and no double quote; the backslash, the quote used, newline, carriage return
  and tab are escaped. Other characters are kept, as \<open>repr\<close> does for printable text.
\<close>

definition repr_char :: "char \<Rightarrow> char \<Rightarrow> string" where
  "repr_char q c =
     (if c = CHR 0x5C then [CHR 0x5C, CHR 0x5C]
      else if c = q then [CHR 0x5C, q]
      else if c = CHR 0x0A then [CHR 0x5C, CHR ''n'']
      else if c = CHR 0x0D then [CHR 0x5C, CHR ''r'']
      else if c = CHR 0x09 then [CHR 0x5C, CHR ''t'']
      else [c])"

definition py_repr :: "string \<Rightarrow> string" where
  "py_repr s =
     (let q = (if CHR 0x27 \<in> set s \<and> CHR 0x22 \<notin> set s then CHR 0x22 else CHR 0x27)
      in q # concat (map (repr_char q) s) @ [q])"

text \<open>
  \<open>str(e)\<close>: the message of the exception; for a KeyError the \<open>repr\<close> of the key,
  for an HTTPException the text \<open>"{status_code}: {detail}"\<close>.
\<close>

fun str_exn :: "exn \<Rightarrow> string" where
  "str_exn (ConnectError m) = m"
| "str_exn (TimeoutException m) = m"
| "str_exn (IndexError m) = m"
| "str_exn (KeyError k) = py_repr k"
| "str_exn (TypeError m) = m"
| "str_exn (HTTPException status_code detail) = str_int status_code @ '': '' @ detail"
| "str_exn (OtherException m) = m"

section \<open>Streaming: the upstream and what the caller is sent\<close>

text \<open>
  The upstream of one streaming call. Either opening the stream raises, or a response
  arrives with its status code: \<open>body\<close> is the outcome of \<open>response.aread()\<close> (called
  only on a non-200 status), the bytes of the body or the exception raised while
  reading them; \<open>chunks\<close> is what the chunked iteration yields, and the iteration
  then ends (\<open>None\<close>) or raises (\<open>Some e\<close>).
\<close>

datatype upstream =
  ConnectRaises exn
  | Response int "exn + bytes" "bytes list" "exn option"

text \<open>
  \<open>bytes.decode('utf-8', errors='ignore')\<close>: well-formed UTF-8 sequences are kept, and
  at an ill-formed one the decoder drops the bytes it reports as the error and goes
  on behind them: one byte for an invalid start byte, the bytes read so far when a
  continuation byte is wrong (the first byte alone when the second byte would give
  an overlong form, a surrogate or a code point beyond U+10FFFF), and everything
  left when the data ends inside a sequence.
\<close>

definition is_continuation :: "char \<Rightarrow> bool" where
  "is_continuation c \<longleftrightarrow> 0x80 \<le> (of_char c :: nat) \<and> (of_char c :: nat) < 0xC0"

fun decode_ignore :: "bytes \<Rightarrow> string" where
  "decode_ignore [] = []"
| "decode_ignore (c # s) =
     (let ch = (of_char c :: nat)
      in if ch < 0x80 then c # decode_ignore s
         else if ch < 0xC2 then decode_ignore s
         else if ch < 0xE0 then
           (case s of
              [] \<Rightarrow> []
            | c2 # s2 \<Rightarrow>
                if is_continuation c2 then c # c2 # decode_ignore s2 else decode_ignore s)
         else if ch < 0xF0 then
           (case s of
              [] \<Rightarrow> []
            | c2 # s2 \<Rightarrow>
                if \<not> is_continuation c2
                   \<or> (if (of_char c2 :: nat) < 0xA0 then ch = 0xE0 else ch = 0xED)
                then decode_ignore s
                else (case s2 of
                        [] \<Rightarrow> []
                      | c3 # s3 \<Rightarrow>
                          if is_continuation c3 then c # c2 # c3 # decode_ignore s3
                          else decode_ignore s2))
         else if ch < 0xF5 then
           (case s of
              [] \<Rightarrow> []
            | c2 # s2 \<Rightarrow>
                if \<not> is_continuation c2
                   \<or> (if (of_char c2 :: nat) < 0x90 then ch = 0xF0 else ch = 0xF4)
                then decode_ignore s
                else (case s2 of
                        [] \<Rightarrow> []
                      | c3 # s3 \<Rightarrow>
                          if \<not> is_continuation c3 then decode_ignore s2
                          else (case s3 of
                                  [] \<Rightarrow> []
                                | c4 # s4 \<Rightarrow>
                                    if is_continuation c4
                                    then c # c2 # c3 # c4 # decode_ignore s4
                                    else decode_ignore s3)))
         else decode_ignore s)"

text \<open>The dictionary under the key \<open>"error"\<close> of an error event.\<close>

record error_info =
  err_type :: string
  err_code :: "int option"
  err_message :: string
  err_provider :: string
  err_connection_id :: "string option"

text \<open>
  What is handed to the caller: a chunk of upstream bytes as it arrived, or the bytes
  \<open>data: {json.dumps({"error": info})}\n\n\<close> of an error event.
\<close>

datatype event = Chunk bytes | ErrorEvent error_info

text \<open>The relay loop: every non-empty chunk is forwarded, in order.\<close>

definition forwarded_chunks :: "bytes list \<Rightarrow> bytes list" where
  "forwarded_chunks chunks = filter (\<lambda>raw_chunk. raw_chunk \<noteq> []) chunks"

subsection \<open>Buffered generator: \<open>forward_request.stream_generator\<close>\<close>

text \<open>The three \<open>except\<close> clauses of the generator, in their order.\<close>

definition generator_except :: "AIProvider \<Rightarrow> exn \<Rightarrow> event \<times> AIProvider" where
  "generator_except provider e =
     (let provider' = provider\<lparr>error_count := error_count provider + 1\<rparr>
      in case e of
           ConnectError m \<Rightarrow>
             (ErrorEvent \<lparr>err_type = ''connection_error'', err_code = None,
                err_message = ''Failed to connect to '' @ name provider @ '': '' @ m,
                err_provider = name provider, err_connection_id = None\<rparr>, provider')
         | TimeoutException m \<Rightarrow>
             (ErrorEvent \<lparr>err_type = ''timeout_error'', err_code = None,
                err_message = ''Request to '' @ name provider @ '' timed out: '' @ m,
                err_provider = name provider, err_connection_id = None\<rparr>, provider')
         | _ \<Rightarrow>
             (ErrorEvent \<lparr>err_type = ''stream_error'', err_code = None,
                err_message = ''Stream error from '' @ name provider @ '': '' @ str_exn e,
                err_provider = name provider, err_connection_id = None\<rparr>, provider'))"

text \<open>
  The generator run to its end: the events it yields and the provider afterwards.
  \<open>start_time\<close> is the reading taken by \<open>forward_request\<close>, \<open>t_connected\<close> the reading
  when the response headers arrived.
\<close>

definition stream_generator ::
  "AIProvider \<Rightarrow> real \<Rightarrow> real \<Rightarrow> upstream \<Rightarrow> event list \<times> AIProvider" where
  "stream_generator provider start_time t_connected up =
     (case up of
        ConnectRaises e \<Rightarrow>
          (let (ev, provider') = generator_except provider e in ([ev], provider'))
      | Response status_code body chunks failure \<Rightarrow>
          (let connection_time = t_connected - start_time;
               provider = provider\<lparr>response_time := (response_time provider + connection_time) / 2\<rparr>
           in if status_code \<noteq> 200
              then (case body of
                      Inl e \<Rightarrow>
                        (let (ev, provider') = generator_except provider e
                         in ([ev], provider'))
                    | Inr error_text \<Rightarrow>
                        ([ErrorEvent \<lparr>err_type = ''provider_error'',
                            err_code = Some status_code,
                            err_message = decode_ignore error_text,
                            err_provider = name provider,
                            err_connection_id = None\<rparr>], provider))
              else (case failure of
                      None \<Rightarrow>
                        (map Chunk (forwarded_chunks chunks),
                         provider\<lparr>error_count := max 0 (error_count provider - 1)\<rparr>)
                    | Some e \<Rightarrow>
                        (let (ev, provider') = generator_except provider e
                         in (map Chunk (forwarded_chunks chunks) @ [ev], provider')))))"

subsection \<open>Direct relay: \<open>LowLevelASGIStreamer.stream_response\<close>\<close>

text \<open>The streamer object; its own \<open>error_count\<close> is the field \<open>streamer_error_count\<close>.\<close>

record LowLevelASGIStreamer =
  request_start_time :: real
  total_bytes_sent :: nat
  chunks_sent :: nat
  connection_id :: string
  is_headers_sent :: bool
  streamer_error_count :: int

text \<open>The messages passed to the ASGI \<open>send\<close> callable.\<close>

datatype asgi_message =
  ResponseStart int "(string \<times> string) list"
  | ResponseBody event bool

definition send_error_response ::
  "LowLevelASGIStreamer \<Rightarrow> string \<Rightarrow> string \<Rightarrow> string \<Rightarrow> asgi_message list \<times> LowLevelASGIStreamer" where
  "send_error_response streamer error_type message provider_name =
     ((if \<not> is_headers_sent streamer
       then [ResponseStart 500
               [(''content-type'', ''text/event-stream''),
                (''x-router-error'', error_type),
                (''x-connection-id'', connection_id streamer)]]
       else [])
      @ [ResponseBody
           (ErrorEvent \<lparr>err_type = error_type, err_code = None, err_message = message,
              err_provider = provider_name,
              err_connection_id = Some (connection_id streamer)\<rparr>) False],
      streamer\<lparr>is_headers_sent := True\<rparr>)"

text \<open>The three \<open>except\<close> clauses of \<open>stream_response\<close>: they count on the streamer.\<close>

definition asgi_except ::
  "LowLevelASGIStreamer \<Rightarrow> AIProvider \<Rightarrow> exn \<Rightarrow> asgi_message list \<times> LowLevelASGIStreamer" where
  "asgi_except streamer provider e =
     (let streamer = streamer\<lparr>streamer_error_count := streamer_error_count streamer + 1\<rparr>
      in case e of
           ConnectError m \<Rightarrow>
             send_error_response streamer ''connection_error''
               (''Connection failed: '' @ m) (name provider)
         | TimeoutException m \<Rightarrow>
             send_error_response streamer ''timeout_error''
               (''Request timeout: '' @ m) (name provider)
         | _ \<Rightarrow>
             send_error_response streamer ''stream_error''
               (''Stream error: '' @ str_exn e) (name provider))"

definition response_start :: "LowLevelASGIStreamer \<Rightarrow> AIProvider \<Rightarrow> asgi_message" where
  "response_start streamer provider =
     ResponseStart 200
       [(''content-type'', ''text/event-stream''),
        (''cache-control'', ''no-cache''),
        (''connection'', ''keep-alive''),
        (''x-router-provider'', name provider),
        (''x-asgi-streaming'', ''true''),
        (''x-router-method'', ''asgi-parameter-optimized''),
        (''x-connection-id'', connection_id streamer)]"

text \<open>The counters of the streamer after the relay loop.\<close>

definition relayed :: "LowLevelASGIStreamer \<Rightarrow> bytes list \<Rightarrow> LowLevelASGIStreamer" where
  "relayed streamer chunks =
     streamer\<lparr>chunks_sent := chunks_sent streamer + length (forwarded_chunks chunks),
              total_bytes_sent := total_bytes_sent streamer
                                   + sum_list (map length (forwarded_chunks chunks))\<rparr>"

text \<open>
  \<open>stream_response\<close> run to its end: the messages sent, the streamer and the provider
  afterwards.
\<close>

definition stream_response ::
  "LowLevelASGIStreamer \<Rightarrow> AIProvider \<Rightarrow> ChatRequest \<Rightarrow> upstream
     \<Rightarrow> asgi_message list \<times> LowLevelASGIStreamer \<times> AIProvider" where
  "stream_response streamer provider request up =
     (let start = response_start streamer provider;
          streamer = streamer\<lparr>is_headers_sent := True\<rparr>
      in case asgi_map_model_name (model request) provider of
           Inl e \<Rightarrow>
             (let (sent, streamer') = asgi_except streamer provider e
              in (start # sent, streamer', provider))
         | Inr actual_model \<Rightarrow>
             (case up of
                ConnectRaises e \<Rightarrow>
                  (let (sent, streamer') = asgi_except streamer provider e
                   in (start # sent, streamer', provider))
              | Response status_code body chunks failure \<Rightarrow>
                  if status_code \<noteq> 200
                  then (case body of
                          Inl e \<Rightarrow>
                            (let (sent, streamer') = asgi_except streamer provider e
                             in (start # sent, streamer', provider))
                        | Inr error_text \<Rightarrow>
                            ([start,
                              ResponseBody
                                (ErrorEvent \<lparr>err_type = ''upstream_error'',
                                   err_code = Some status_code,
                                   err_message = decode_ignore error_text,
                                   err_provider = name provider,
                                   err_connection_id = Some (connection_id streamer)\<rparr>)
                                False],
                             streamer, provider))
                  else (let body_messages =
                              map (\<lambda>chunk. ResponseBody (Chunk chunk) True) (forwarded_chunks chunks);
                            streamer = relayed streamer chunks
                        in case failure of
                             None \<Rightarrow>
                               (start # body_messages @ [ResponseBody (Chunk []) False],
                                streamer,
                                provider\<lparr>error_count := max 0 (error_count provider - 1)\<rparr>)
                           | Some e \<Rightarrow>
                               (let (sent, streamer') = asgi_except streamer provider e
                                in (start # body_messages @ sent, streamer', provider)))))"

section \<open>Non-streaming forwarding\<close>

datatype json =
  JNull
  | JBool bool
  | JInt int
  | JFloat real
  | JString string
  | JArray "json list"
  | JObject "(string \<times> json) list"

text \<open>Item assignment on a dictionary: the value of a present key is replaced in place,
  a new key is added at the end.\<close>

fun set_item :: "(string \<times> json) list \<Rightarrow> string \<Rightarrow> json \<Rightarrow> (string \<times> json) list" where
  "set_item [] k v = [(k, v)]"
| "set_item ((k', v') # kvs) k v = (if k' = k then (k, v) # kvs else (k', v') # set_item kvs k v)"

text \<open>The TypeError of \<open>v["key"] = ...\<close> on a value that is not a dictionary.\<close>

definition type_name :: "json \<Rightarrow> string" where
  "type_name v =
     (case v of
        JNull \<Rightarrow> ''NoneType'' | JBool _ \<Rightarrow> ''bool'' | JInt _ \<Rightarrow> ''int'' | JFloat _ \<Rightarrow> ''float''
      | JString _ \<Rightarrow> ''str'' | JArray _ \<Rightarrow> ''list'' | JObject _ \<Rightarrow> ''dict'')"

definition item_assignment_error :: "json \<Rightarrow> exn" where
  "item_assignment_error v =
     (case v of
        JArray _ \<Rightarrow> TypeError ''list indices must be integers or slices, not str''
      | _ \<Rightarrow> TypeError (CHR 0x27 # type_name v @ CHR 0x27
                         # '' object does not support item assignment''))"

text \<open>
  The upstream of one non-streaming call: \<open>client.post\<close> raises, or a response
  arrives with its status code, its \<open>text\<close> and the outcome of \<open>response.json()\<close>:
  the exception raised by a body that is not JSON, or the decoded value.
\<close>

datatype reply =
  PostRaises exn
  | Reply int string "exn + json"

definition router_info :: "AIProvider \<Rightarrow> real \<Rightarrow> string \<Rightarrow> json" where
  "router_info provider response_time' timestamp =
     JObject [(''provider'', JString (name provider)),
              (''response_time'', JFloat response_time'),
              (''timestamp'', JString timestamp),
              (''streaming'', JBool False)]"

text \<open>
  The body of the inner \<open>try\<close> of the non-streaming branch: the post, the update of
  the response time, and on status 200 the decoding of the body and the assignment
  of \<open>_router_info\<close>, either of which can raise.
\<close>

definition post_try ::
  "AIProvider \<Rightarrow> real \<Rightarrow> real \<Rightarrow> string \<Rightarrow> reply
     \<Rightarrow> (exn + (string \<times> json) list) \<times> AIProvider" where
  "post_try provider start_time t_response timestamp rep =
     (case rep of
        PostRaises e \<Rightarrow> (Inl e, provider)
      | Reply status_code text decoded \<Rightarrow>
          (let response_time' = t_response - start_time;
               provider = provider\<lparr>response_time := (response_time provider + response_time') / 2\<rparr>
           in if status_code = 200
              then (case decoded of
                      Inl e \<Rightarrow> (Inl e, provider)
                    | Inr (JObject result) \<Rightarrow>
                        (Inr (set_item result ''_router_info''
                                (router_info provider response_time' timestamp)),
                         provider\<lparr>error_count := max 0 (error_count provider - 1)\<rparr>)
                    | Inr v \<Rightarrow> (Inl (item_assignment_error v), provider))
              else (Inl (HTTPException status_code (''Provider error: '' @ text)),
                    provider\<lparr>error_count := error_count provider + 1\<rparr>)))"

text \<open>
  The inner \<open>try\<close> with its two \<open>except\<close> clauses. An exception that is neither a
  ConnectError nor a TimeoutException leaves it as it is.
\<close>

definition post_request ::
  "AIProvider \<Rightarrow> real \<Rightarrow> real \<Rightarrow> string \<Rightarrow> reply
     \<Rightarrow> (exn + (string \<times> json) list) \<times> AIProvider" where
  "post_request provider start_time t_response timestamp rep =
     (case post_try provider start_time t_response timestamp rep of
        (Inl (ConnectError m), provider') \<Rightarrow>
          (Inl (HTTPException 502 (''Connection error: '' @ m)),
           provider'\<lparr>error_count := error_count provider' + 1\<rparr>)
      | (Inl (TimeoutException m), provider') \<Rightarrow>
          (Inl (HTTPException 504 (''Provider timeout: '' @ m)),
           provider'\<lparr>error_count := error_count provider' + 1\<rparr>)
      | (Inl e, provider') \<Rightarrow> (Inl e, provider')
      | (Inr result, provider') \<Rightarrow> (Inr result, provider'))"

text \<open>
  What \<open>forward_request\<close> returns: the generator of a streaming call, not yet started
  (it holds the model name it will send and the \<open>start_time\<close> read by
  \<open>forward_request\<close>), or the augmented body of a non-streaming call.
\<close>

datatype forwarded =
  Generator string real
  | Result "(string \<times> json) list"

text \<open>The body of the outer \<open>try\<close> of \<open>forward_request\<close>.\<close>

definition forward_request_try ::
  "AIProvider \<Rightarrow> ChatRequest \<Rightarrow> real \<Rightarrow> real \<Rightarrow> string \<Rightarrow> reply \<Rightarrow> (exn + forwarded) \<times> AIProvider" where
  "forward_request_try provider request start_time t_response timestamp rep =
     (case map_model_name (model request) provider of
        Inl e \<Rightarrow> (Inl e, provider)
      | Inr actual_model \<Rightarrow>
          if stream request = Some True then (Inr (Generator actual_model start_time), provider)
          else (case post_request provider start_time t_response timestamp rep of
                  (Inl e, provider') \<Rightarrow> (Inl e, provider')
                | (Inr result, provider') \<Rightarrow> (Inr (Result result), provider')))"

text \<open>
  \<open>SmartAIRouter.forward_request\<close>: the outer \<open>except Exception\<close> catches whatever
  leaves the body, the HTTPExceptions raised by the inner clauses included.
\<close>

definition forward_request ::
  "AIProvider \<Rightarrow> ChatRequest \<Rightarrow> real \<Rightarrow> real \<Rightarrow> string \<Rightarrow> reply \<Rightarrow> (exn + forwarded) \<times> AIProvider" where
  "forward_request provider request start_time t_response timestamp rep =
     (case forward_request_try provider request start_time t_response timestamp rep of
        (Inl e, provider') \<Rightarrow>
          (Inl (HTTPException 502 (''Provider error: '' @ str_exn e)),
           provider'\<lparr>error_count := error_count provider' + 1\<rparr>)
      | (Inr r, provider') \<Rightarrow> (Inr r, provider'))"

section \<open>Authentication and quota\<close>

text \<open>
  \<open>UserInfo\<close>; its fields \<open>api_key\<close> and \<open>total_requests\<close> are \<open>user_api_key\<close> and
  \<open>user_total_requests\<close> here.
\<close>

record UserInfo =
  user_id :: string
  user_api_key :: string
  daily_limit :: int
  requests_today :: int
  user_total_requests :: int
  created_at :: string
  last_request :: string
  is_active :: bool

record AuthConfig =
  auth_mode :: string
  shared_api_key :: string
  users_db :: "string \<rightharpoonup> UserInfo"

text \<open>\<open>now\<close> is \<open>datetime.now().isoformat()\<close>, the default of the two timestamps.\<close>

definition verify_api_key :: "AuthConfig \<Rightarrow> string \<Rightarrow> string \<Rightarrow> UserInfo option" where
  "verify_api_key cfg key now =
     (if auth_mode cfg = ''shared''
      then (if key = shared_api_key cfg
            then Some \<lparr>user_id = ''shared_user'', user_api_key = key, daily_limit = 999999,
                       requests_today = 0, user_total_requests = 0, created_at = now,
                       last_request = now, is_active = True\<rparr>
            else None)
      else if auth_mode cfg = ''multi_user'' then users_db cfg key
      else None)"

text \<open>
  \<open>check_quota\<close>: \<open>today\<close> is \<open>datetime.now().date().isoformat()\<close>. The verdict and
  the user record afterwards.
\<close>

definition check_quota :: "UserInfo \<Rightarrow> string \<Rightarrow> bool \<times> UserInfo" where
  "check_quota user_info today =
     (let user_info = (if take 10 (last_request user_info) \<noteq> today
                       then user_info\<lparr>requests_today := 0\<rparr> else user_info)
      in (requests_today user_info < daily_limit user_info, user_info))"

definition update_user_stats :: "UserInfo \<Rightarrow> string \<Rightarrow> UserInfo" where
  "update_user_stats user_info now =
     user_info\<lparr>requests_today := requests_today user_info + 1,
                user_total_requests := user_total_requests user_info + 1,
                last_request := now\<rparr>"

text \<open>
  \<open>authenticate\<close>: the user admitted or the HTTPException raised, and the user record
  after the quota check when the key was known.
\<close>

definition authenticate ::
  "AuthConfig \<Rightarrow> string \<Rightarrow> string \<Rightarrow> string \<Rightarrow> (exn + UserInfo) \<times> UserInfo option" where
  "authenticate cfg key now today =
     (case verify_api_key cfg key now of
        None \<Rightarrow> (Inl (HTTPException 401 ''Invalid API key''), None)
      | Some user_info \<Rightarrow>
          if \<not> is_active user_info
          then (Inl (HTTPException 403 ''User account is inactive''), Some user_info)
          else (case check_quota user_info today of
                  (False, user_info') \<Rightarrow>
                    (Inl (HTTPException 429
                            (''Daily quota exceeded. Limit: '' @ str_int (daily_limit user_info')
                             @ '', Used: '' @ str_int (requests_today user_info'))),
                     Some user_info')
                | (True, user_info') \<Rightarrow> (Inr user_info', Some user_info')))"

text \<open>The two users of \<open>users_db\<close>, created at \<open>now\<close>.\<close>

definition demo_user_001 :: "string \<Rightarrow> UserInfo" where
  "demo_user_001 now =
     \<lparr>user_id = ''demo_user_001'', user_api_key = ''sk-user-demo-key-001'', daily_limit = 500,
      requests_today = 0, user_total_requests = 0, created_at = now, last_request = now,
      is_active = True\<rparr>"

definition admin_user :: "string \<Rightarrow> UserInfo" where
  "admin_user now =
     \<lparr>user_id = ''admin_user'', user_api_key = ''sk-user-admin-key-999'', daily_limit = 10000,
      requests_today = 0, user_total_requests = 0, created_at = now, last_request = now,
      is_active = True\<rparr>"

section \<open>The endpoints and the router statistics\<close>

record RouterStats =
  total_requests :: int
  successful_requests :: int
  failed_requests :: int
  provider_usage :: "string \<rightharpoonup> int"

text \<open>\<open>router.stats["provider_usage"][provider.name] += 1\<close>: a KeyError on a missing name.\<close>

definition count_usage :: "RouterStats \<Rightarrow> string \<Rightarrow> exn + RouterStats" where
  "count_usage stats provider_name =
     (case provider_usage stats provider_name of
        None \<Rightarrow> Inl (KeyError provider_name)
      | Some n \<Rightarrow> Inr (stats\<lparr>provider_usage := (provider_usage stats)(provider_name \<mapsto> n + 1)\<rparr>))"

definition count_failed :: "RouterStats \<Rightarrow> RouterStats" where
  "count_failed stats = stats\<lparr>failed_requests := failed_requests stats + 1\<rparr>"

definition count_successful :: "RouterStats \<Rightarrow> RouterStats" where
  "count_successful stats = stats\<lparr>successful_requests := successful_requests stats + 1\<rparr>"

text \<open>\<open>LowLevelASGIStreamer(start_time)\<close>; the connection id is an argument.\<close>

definition new_streamer :: "real \<Rightarrow> string \<Rightarrow> LowLevelASGIStreamer" where
  "new_streamer start_time conn_id =
     \<lparr>request_start_time = start_time, total_bytes_sent = 0, chunks_sent = 0,
      connection_id = conn_id, is_headers_sent = False, streamer_error_count = 0\<rparr>"

text \<open>
  What an endpoint returns to the framework: a response that will run
  \<open>stream_response\<close> when the framework calls it, a StreamingResponse over what
  \<open>forward_request\<close> returned with the headers the handler gives it, or the
  dictionary of a non-streaming answer.
\<close>

datatype response =
  ASGIStreamingResponse LowLevelASGIStreamer AIProvider ChatRequest
  | StreamingResponse AIProvider forwarded "(string \<times> string) list"
  | JSONResult "(string \<times> json) list"

text \<open>
  The lines of the non-streaming branch that add the user to \<open>_router_info\<close>; item
  assignment on a value that is not a dictionary raises TypeError.
\<close>

definition add_user_info ::
  "(string \<times> json) list \<Rightarrow> UserInfo \<Rightarrow> exn + (string \<times> json) list" where
  "add_user_info result user_info =
     (let result = (if map_of result ''_router_info'' = None
                    then set_item result ''_router_info'' (JObject []) else result)
      in case map_of result ''_router_info'' of
           Some (JObject info) \<Rightarrow>
             Inr (set_item result ''_router_info''
                    (JObject (set_item (set_item (set_item (set_item info
                      ''user_id'' (JString (user_id user_info)))
                      ''requests_today'' (JInt (requests_today user_info)))
                      ''daily_limit'' (JInt (daily_limit user_info)))
                      ''recommendation''
                        (JString ''Use x_use_asgi_streaming: true for optimal streaming''))))
         | Some v \<Rightarrow> Inl (item_assignment_error v)
         | None \<Rightarrow> Inl (KeyError ''_router_info''))"

text \<open>The headers the handler gives its StreamingResponse.\<close>

definition streaming_headers :: "AIProvider \<Rightarrow> UserInfo \<Rightarrow> (string \<times> string) list" where
  "streaming_headers provider user_info =
     [(''Cache-Control'', ''no-cache''),
      (''Connection'', ''keep-alive''),
      (''X-Router-Provider'', name provider),
      (''X-Router-User'', user_id user_info),
      (''X-Streaming-Type'', ''fastapi-improved''),
      (''X-Router-Recommendation'', ''use-asgi-streaming'')]"

text \<open>
  \<open>chat_completions\<close>, from the built ChatRequest on (the handler has set
  \<open>stream\<close> to true when the body had none). \<open>asgi_from_data\<close> is whether the value of
  \<open>x_use_asgi_streaming\<close> in the raw body is truthy, \<open>asgi_from_header\<close> whether the
  header \<open>x-use-asgi-streaming\<close> is \<open>true\<close>; \<open>start_time\<close> is the clock reading of the
  handler and \<open>t_forward\<close> the one of \<open>forward_request\<close>. The result is what the
  handler returns or raises, the statistics, the user and the selected provider
  afterwards. The upstream of a streaming call is not an argument: the handler
  returns before the framework starts the relay.
\<close>

definition chat_completions ::
  "RouterStats \<Rightarrow> AIProvider list \<Rightarrow> UserInfo \<Rightarrow> ChatRequest \<Rightarrow> bool \<Rightarrow> bool \<Rightarrow> nat \<Rightarrow> string
     \<Rightarrow> string \<Rightarrow> real \<Rightarrow> real \<Rightarrow> real \<Rightarrow> string \<Rightarrow> reply
     \<Rightarrow> (exn + response) \<times> RouterStats \<times> UserInfo \<times> AIProvider option" where
  "chat_completions stats providers user_info chat_request asgi_from_data asgi_from_header rnd
       now conn_id start_time t_forward t_response timestamp rep =
     (let stats = stats\<lparr>total_requests := total_requests stats + 1\<rparr>;
          user_info = update_user_stats user_info now;
          use_asgi_streaming = (asgi_from_data \<or> asgi_from_header)
      in case select_provider providers chat_request rnd of
           None \<Rightarrow>
             (Inl (HTTPException 503 ''No available AI providers''),
              count_failed (count_failed stats), user_info, None)
         | Some provider \<Rightarrow>
             (case count_usage stats (name provider) of
                Inl e \<Rightarrow>
                  (Inl (HTTPException 500 ''Internal server error''),
                   count_failed stats, user_info, Some provider)
              | Inr stats \<Rightarrow>
                  if stream chat_request = Some True
                  then (if use_asgi_streaming
                        then (Inr (ASGIStreamingResponse (new_streamer start_time conn_id)
                                     provider chat_request),
                              count_successful stats, user_info, Some provider)
                        else (case forward_request provider chat_request t_forward t_response
                                     timestamp rep of
                                (Inr result, provider') \<Rightarrow>
                                  (Inr (StreamingResponse provider' result
                                          (streaming_headers provider' user_info)),
                                   count_successful stats, user_info, Some provider')
                              | (Inl e, provider') \<Rightarrow>
                                  (Inl (HTTPException 500
                                          (''Streaming setup failed: '' @ str_exn e)),
                                   count_failed (count_failed stats), user_info,
                                   Some provider')))
                  else (case forward_request provider chat_request t_forward t_response
                               timestamp rep of
                          (Inr (Result result), provider') \<Rightarrow>
                            (case add_user_info result user_info of
                               Inr result' \<Rightarrow>
                                 (Inr (JSONResult result'), count_successful stats, user_info,
                                  Some provider')
                             | Inl e \<Rightarrow>
                                 (Inl (HTTPException 500 ''Internal server error''),
                                  count_failed (count_failed stats), user_info, Some provider'))
                        | (Inr (Generator m t), provider') \<Rightarrow>
                            (Inl (HTTPException 500 ''Internal server error''),
                             count_failed (count_failed stats), user_info, Some provider')
                        | (Inl (HTTPException status_code detail), provider') \<Rightarrow>
                            (Inl (HTTPException status_code detail),
                             count_failed (count_failed stats), user_info, Some provider')
                        | (Inl e, provider') \<Rightarrow>
                            (Inl (HTTPException 500 ''Internal server error''),
                             count_failed (count_failed stats), user_info, Some provider'))))"

text \<open>
  \<open>chat_completions_asgi\<close>: the endpoint that always streams over the direct relay.
  Its single \<open>except Exception\<close> counts one failure and raises status 500.
\<close>

definition chat_completions_asgi ::
  "RouterStats \<Rightarrow> AIProvider list \<Rightarrow> UserInfo \<Rightarrow> ChatRequest \<Rightarrow> nat \<Rightarrow> string \<Rightarrow> string \<Rightarrow> real
     \<Rightarrow> (exn + response) \<times> RouterStats \<times> UserInfo \<times> AIProvider option" where
  "chat_completions_asgi stats providers user_info chat_request rnd now conn_id start_time =
     (let stats = stats\<lparr>total_requests := total_requests stats + 1\<rparr>;
          user_info = update_user_stats user_info now;
          chat_request = chat_request\<lparr>stream := Some True, x_use_asgi_streaming := Some True\<rparr>
      in case select_provider providers chat_request rnd of
           None \<Rightarrow>
             (Inl (HTTPException 500
                     (''ASGI streaming error: ''
                      @ str_exn (HTTPException 503 ''No available AI providers''))),
              count_failed stats, user_info, None)
         | Some provider \<Rightarrow>
             (case count_usage stats (name provider) of
                Inl e \<Rightarrow>
                  (Inl (HTTPException 500 (''ASGI streaming error: '' @ str_exn e)),
                   count_failed stats, user_info, Some provider)
              | Inr stats \<Rightarrow>
                  (Inr (ASGIStreamingResponse (new_streamer start_time conn_id) provider
                          chat_request),
                   count_successful stats, user_info, Some provider)))"

subsection \<open>The relay behind a response\<close>

text \<open>
  \<open>error_handled_stream\<close>, the wrapper the handler puts around what \<open>forward_request\<close>
  returned: it passes on every chunk of the generator; iterating anything else
  raises, and the wrapper yields one error event.
\<close>

definition error_handled_stream ::
  "AIProvider \<Rightarrow> forwarded \<Rightarrow> real \<Rightarrow> upstream \<Rightarrow> event list \<times> AIProvider" where
  "error_handled_stream provider result t_connected up =
     (case result of
        Generator actual_model start_time \<Rightarrow>
          stream_generator provider start_time t_connected up
      | Result r \<Rightarrow>
          ([ErrorEvent \<lparr>err_type = ''fastapi_stream_error'', err_code = None,
              err_message = CHR 0x27 # ''async for'' @ CHR 0x27
                # '' requires an object with __aiter__ method, got dict'',
              err_provider = name provider, err_connection_id = None\<rparr>], provider))"

text \<open>
  What the framework's StreamingResponse sends for a body iterator, as Starlette
  does it: the response start with status 200, the given headers with lower-case
  names and the content type of the media type \<open>text/event-stream\<close>; one body message
  with \<open>more_body\<close> true for every chunk the iterator yields; and last an empty body
  with \<open>more_body\<close> false.
\<close>

definition lower_char :: "char \<Rightarrow> char" where
  "lower_char c =
     (case map_of (zip ''ABCDEFGHIJKLMNOPQRSTUVWXYZ'' ''abcdefghijklmnopqrstuvwxyz'') c of
        Some l \<Rightarrow> l
      | None \<Rightarrow> c)"

definition streaming_response_start :: "(string \<times> string) list \<Rightarrow> asgi_message" where
  "streaming_response_start headers =
     ResponseStart 200
       (map (\<lambda>(k, v). (map lower_char k, v)) headers
        @ [(''content-type'', ''text/event-stream; charset=utf-8'')])"

definition streaming_response_send :: "(string \<times> string) list \<Rightarrow> event list \<Rightarrow> asgi_message list" where
  "streaming_response_send headers events =
     streaming_response_start headers
       # map (\<lambda>chunk. ResponseBody chunk True) events
       @ [ResponseBody (Chunk []) False]"

text \<open>
  The relay the framework runs after the handler has returned, against the upstream
  \<open>up\<close>: the StreamingResponse over the wrapped generator, or \<open>stream_response\<close>. The
  result is what the caller is sent, the streamer of the direct relay, and the
  provider afterwards. \<open>t_connected\<close> is the clock reading when the upstream answered.
\<close>

datatype relayed_stream =
  Relayed "asgi_message list" "LowLevelASGIStreamer option" AIProvider
  | NoStream

definition run_relay :: "response \<Rightarrow> real \<Rightarrow> upstream \<Rightarrow> relayed_stream" where
  "run_relay resp t_connected up =
     (case resp of
        StreamingResponse provider result headers \<Rightarrow>
          (case error_handled_stream provider result t_connected up of
             (events, provider') \<Rightarrow>
               Relayed (streaming_response_send headers events) None provider')
      | ASGIStreamingResponse streamer provider chat_request \<Rightarrow>
          (case stream_response streamer provider chat_request up of
             (sent, streamer', provider') \<Rightarrow> Relayed sent (Some streamer') provider')
      | JSONResult result \<Rightarrow> NoStream)"

text \<open>
  One request on \<open>/v1/chat/completions\<close> from the handler to the end of its relay:
  the statistics when the relay has ended, and the relay.
\<close>

definition serve_chat_completions ::
  "RouterStats \<Rightarrow> AIProvider list \<Rightarrow> UserInfo \<Rightarrow> ChatRequest \<Rightarrow> bool \<Rightarrow> bool \<Rightarrow> nat \<Rightarrow> string
     \<Rightarrow> string \<Rightarrow> real \<Rightarrow> real \<Rightarrow> real \<Rightarrow> string \<Rightarrow> reply \<Rightarrow> real \<Rightarrow> upstream
     \<Rightarrow> RouterStats \<times> relayed_stream" where
  "serve_chat_completions stats providers user_info chat_request asgi_from_data
       asgi_from_header rnd now conn_id start_time t_forward t_response timestamp rep
       t_connected up =
     (case chat_completions stats providers user_info chat_request asgi_from_data
             asgi_from_header rnd now conn_id start_time t_forward t_response timestamp rep of
        (Inr resp, stats', _) \<Rightarrow> (stats', run_relay resp t_connected up)
      | (Inl e, stats', _) \<Rightarrow> (stats', NoStream))"

text \<open>The same for \<open>/v1/chat/completions/asgi\<close>.\<close>

definition serve_chat_completions_asgi ::
  "RouterStats \<Rightarrow> AIProvider list \<Rightarrow> UserInfo \<Rightarrow> ChatRequest \<Rightarrow> nat \<Rightarrow> string \<Rightarrow> string \<Rightarrow> real
     \<Rightarrow> real \<Rightarrow> upstream \<Rightarrow> RouterStats \<times> relayed_stream" where
  "serve_chat_completions_asgi stats providers user_info chat_request rnd now conn_id
       start_time t_connected up =
     (case chat_completions_asgi stats providers user_info chat_request rnd now conn_id
             start_time of
        (Inr resp, stats', _) \<Rightarrow> (stats', run_relay resp t_connected up)
      | (Inl e, stats', _) \<Rightarrow> (stats', NoStream))"

text \<open>The statistics built by \<open>SmartAIRouter.__init__\<close>.\<close>

definition init_stats :: RouterStats where
  "init_stats =
     \<lparr>total_requests = 0, successful_requests = 0, failed_requests = 0,
      provider_usage = [''deepseek'' \<mapsto> 0, ''lingyiwanwu'' \<mapsto> 0, ''ollama'' \<mapsto> 0]\<rparr>"

section \<open>The selection weights as the specification words them\<close>

text \<open>
  Section 4.3, steps 3 and 4, of the specification: the effective weight is the static
  weight times \<open>max(0.1, 2.0 - response_time)\<close> times
  \<open>max(0.1, 1.0 - 0.1 * error_count)\<close>, and a candidate is repeated
  \<open>max(1, round(effective_weight))\<close> times.
\<close>

definition spec_effective_weight :: "AIProvider \<Rightarrow> real" where
  "spec_effective_weight provider =
     real_of_int (weight provider) * max 0.1 (2.0 - response_time provider)
       * max 0.1 (1.0 - 0.1 * real_of_int (error_count provider))"

definition spec_copies :: "AIProvider \<Rightarrow> nat" where
  "spec_copies provider = nat (max 1 (round (spec_effective_weight provider)))"

section \<open>Example inputs\<close>

text \<open>
  A request for the model \<open>m\<close> with one user message and the defaults of
  \<open>ChatRequest\<close> for the other fields, streaming or not.
\<close>

definition hello_request :: "string \<Rightarrow> bool \<Rightarrow> ChatRequest" where
  "hello_request m streaming =
     \<lparr>model = m, messages = [[(''role'', ''user''), (''content'', ''hello'')]],
      max_tokens = Some 150, temperature = Some 0.7, stream = Some streaming,
      x_use_asgi_streaming = Some False\<rparr>"

text \<open>A provider that answers in half a second, with static weight 1.\<close>

definition half_second_provider :: AIProvider where
  "half_second_provider = deepseek\<lparr>weight := 1, status := HEALTHY, response_time := 0.5\<rparr>"

text \<open>A decoded upstream body that already has a field \<open>_router_info\<close>.\<close>

definition upstream_body :: "(string \<times> json) list" where
  "upstream_body =
     [(''id'', JString ''chatcmpl-1''), (''_router_info'', JString ''upstream'')]"

text \<open>A provider of static weight 5 with 6 consecutive errors and no response time yet.\<close>

definition failing_provider :: AIProvider where
  "failing_provider = deepseek\<lparr>weight := 5, error_count := 6\<rparr>"

text \<open>
  The multi-user configuration with the users of \<open>setup_authentication\<close>, created at
  \<open>now\<close>, where the demo user has used up the 500 requests of the day.
\<close>

definition exhausted_config :: "string \<Rightarrow> AuthConfig" where
  "exhausted_config now =
     \<lparr>auth_mode = ''multi_user'', shared_api_key = ''sk-8d6804b011614dba7bd065f8644514b'',
      users_db = [''sk-user-demo-key-001'' \<mapsto> (demo_user_001 now)\<lparr>requests_today := 500\<rparr>,
                  ''sk-user-admin-key-999'' \<mapsto> admin_user now]\<rparr>"

section \<open>Model name mapping: the three cases\<close>

lemma dom_model_mapping:
  "dom model_mapping = {''gpt-3.5-turbo'', ''gpt-4'', ''code-assistant''}"
  by (auto simp: model_mapping_def split: if_splits)

lemma models_0_hd: "models provider \<noteq> [] \<Longrightarrow> models_0 provider = Inr (hd (models provider))"
  by (cases "models provider") (simp_all add: models_0_def)

text \<open>
  C8. The recognised aliases are the three keys of the table. For a provider with a
  non-empty model list (its first entry is the default), \<open>map_model_name\<close> returns
  the provider's translation of an alias, or the provider's first model when the
  alias has no entry under the provider's name; a name that is no alias is returned
  unchanged when it is one of the provider's models, and otherwise the first model is
  returned. The result is a function of the two arguments alone, and the streamer's
  copy of the mapper returns the same value.
\<close>

theorem map_model_name_cases:
  "dom model_mapping = {''gpt-3.5-turbo'', ''gpt-4'', ''code-assistant''}
   \<and> (models provider \<noteq> [] \<longrightarrow>
     map_model_name requested_model provider =
       Inr (case model_mapping requested_model of
              Some translations \<Rightarrow>
                (case translations (name provider) of
                   Some m \<Rightarrow> m
                 | None \<Rightarrow> hd (models provider))
            | None \<Rightarrow>
                if requested_model \<in> set (models provider) then requested_model
                else hd (models provider)))
   \<and> asgi_map_model_name requested_model provider = map_model_name requested_model provider"
  by (auto simp: dom_model_mapping map_model_name_def asgi_map_model_name_def models_0_hd
      split: option.splits)

theorem map_model_name_cases_witness:
  "models deepseek \<noteq> []
   \<and> map_model_name ''code-assistant'' deepseek = Inr ''deepseek-coder''
   \<and> map_model_name ''gpt-4'' (deepseek\<lparr>name := ''other''\<rparr>) = Inr ''deepseek-chat''
   \<and> map_model_name ''deepseek-coder'' deepseek = Inr ''deepseek-coder''
   \<and> map_model_name ''llama3.2'' deepseek = Inr ''deepseek-chat''"
  using map_model_name_cases[of deepseek "''code-assistant''"]
    map_model_name_cases[of "deepseek\<lparr>name := ''other''\<rparr>" "''gpt-4''"]
    map_model_name_cases[of deepseek "''deepseek-coder''"]
    map_model_name_cases[of deepseek "''llama3.2''"]
  by (simp add: deepseek_def model_mapping_def)

section \<open>Double-precision arithmetic: to nearest, ties to even\<close>

text \<open>
  \<open>binary_exponent\<close> is the exponent of the leading bit, and \<open>round_double x\<close> is the
  multiple of \<open>2^(e - 52)\<close> nearest to \<open>x\<close>, with a significand of 53 bits; when \<open>x\<close> lies
  halfway between two such multiples, the one with the even significand. These
  properties determine \<open>round_double\<close>, and they are the rounding of IEEE binary64.
\<close>

lemma pow2_powi: "pow2 e = 2 powi e"
  by (simp add: pow2_def power_int_def inverse_eq_divide power_one_over)

lemma pow2_pos: "0 < pow2 e"
  by (simp add: pow2_def)

lemma pow2_add: "pow2 (i + j) = pow2 i * pow2 j"
  by (simp add: pow2_powi power_int_add)

lemma binary_exponent_bounds:
  assumes "x \<noteq> 0"
  shows "pow2 (binary_exponent x) \<le> \<bar>x\<bar> \<and> \<bar>x\<bar> < pow2 (binary_exponent x + 1)"
proof (cases "1 \<le> \<bar>x\<bar>")
  case True
  define n where "n = \<lfloor>\<bar>x\<bar>\<rfloor>"
  have n1: "1 \<le> n" using True by (simp add: n_def le_floor_iff)
  then have npos: "0 < n" by simp
  from bitlen_bounds[OF npos] have b: "2 ^ nat (bitlen n - 1) \<le> n" "n < 2 ^ nat (bitlen n)"
    by auto
  have bl: "1 \<le> bitlen n" using npos by (simp add: bitlen_alt_def)
  have e: "binary_exponent x = bitlen n - 1" using True by (simp add: binary_exponent_def n_def)
  have "real_of_int (2 ^ nat (bitlen n - 1)) \<le> real_of_int n" using b(1) by (rule of_int_le_iff[THEN iffD2])
  also have "real_of_int n \<le> \<bar>x\<bar>" by (simp add: n_def)
  finally have lo: "pow2 (bitlen n - 1) \<le> \<bar>x\<bar>" using bl by (simp add: pow2_def)
  have "n + 1 \<le> 2 ^ nat (bitlen n)" using b(2) by simp
  then have "real_of_int (n + 1) \<le> real_of_int (2 ^ nat (bitlen n))" by (rule of_int_le_iff[THEN iffD2])
  moreover have "\<bar>x\<bar> < real_of_int (n + 1)" unfolding n_def by linarith
  ultimately have "\<bar>x\<bar> < 2 ^ nat (bitlen n)" by simp
  then have hi: "\<bar>x\<bar> < pow2 (bitlen n - 1 + 1)" using bl by (simp add: pow2_def)
  from lo hi e show ?thesis by simp
next
  case False
  then have lt: "\<bar>x\<bar> < 1" by simp
  have pos: "0 < \<bar>x\<bar>" using assms by simp
  define y where "y = 1 / \<bar>x\<bar>"
  have y1: "1 < y" using lt pos by (simp add: y_def)
  have xy: "\<bar>x\<bar> = 1 / y" by (simp add: y_def)
  define m where "m = \<lceil>y\<rceil> - 1"
  have m1: "1 \<le> m" using y1 unfolding m_def by linarith
  then have mpos: "0 < m" by simp
  from bitlen_bounds[OF mpos] have b: "2 ^ nat (bitlen m - 1) \<le> m" "m < 2 ^ nat (bitlen m)"
    by auto
  have bl: "1 \<le> bitlen m" using mpos by (simp add: bitlen_alt_def)
  have e: "binary_exponent x = - bitlen m" using False by (simp add: binary_exponent_def m_def y_def)
  have "y \<le> real_of_int (m + 1)" unfolding m_def by linarith
  moreover have "m + 1 \<le> 2 ^ nat (bitlen m)" using b(2) by simp
  then have "real_of_int (m + 1) \<le> real_of_int (2 ^ nat (bitlen m))" by (rule of_int_le_iff[THEN iffD2])
  ultimately have yle: "y \<le> 2 ^ nat (bitlen m)" by simp
  have "1 / 2 ^ nat (bitlen m) \<le> 1 / y"
    using yle y1 by (intro divide_left_mono) auto
  then have lo: "pow2 (- bitlen m) \<le> \<bar>x\<bar>" using bl unfolding xy by (simp add: pow2_def)
  have "real_of_int m < y" unfolding m_def by linarith
  moreover have "real_of_int (2 ^ nat (bitlen m - 1)) \<le> real_of_int m" using b(1) by (rule of_int_le_iff[THEN iffD2])
  then have "(2::real) ^ nat (bitlen m - 1) \<le> real_of_int m" by simp
  ultimately have ygt: "2 ^ nat (bitlen m - 1) < y" by linarith
  have hi: "\<bar>x\<bar> < pow2 (- bitlen m + 1)"
  proof (cases "bitlen m = 1")
    case True
    then have "pow2 (- bitlen m + 1) = 1" by (simp add: pow2_def)
    then show ?thesis using lt by simp
  next
    case False
    with bl have b2: "2 \<le> bitlen m" by simp
    define k where "k = nat (bitlen m - 1)"
    have p: "pow2 (- bitlen m + 1) = 1 / 2 ^ k"
    proof -
      have "\<not> 0 \<le> - bitlen m + 1" using b2 by simp
      moreover have "nat (- (- bitlen m + 1)) = k" by (simp add: k_def)
      ultimately show ?thesis unfolding pow2_def by simp
    qed
    have "(2::real) ^ k < y" using ygt by (simp add: k_def)
    moreover have "(0::real) < 2 ^ k" by simp
    ultimately have "1 / y < 1 / 2 ^ k"
      by (intro divide_strict_left_mono mult_pos_pos) linarith+
    then show ?thesis unfolding xy p .
  qed
  from lo hi e show ?thesis by simp
qed

lemma round_half_even_near:
  "\<bar>real_of_int (round_half_even y) - y\<bar> \<le> 1 / 2"
  "\<bar>real_of_int (round_half_even y) - y\<bar> = 1 / 2 \<Longrightarrow> even (round_half_even y)"
proof -
  define n where "n = \<lfloor>y\<rfloor>"
  define r where "r = y - real_of_int n"
  define k where "k = round_half_even y"
  have r: "0 \<le> r" "r < 1" unfolding r_def n_def by linarith+
  have k: "k = (if r < 1 / 2 then n else if 1 / 2 < r then n + 1 else if even n then n else n + 1)"
    by (simp add: k_def round_half_even_def Let_def n_def r_def)
  have d: "real_of_int k - y = real_of_int k - real_of_int n - r" by (simp add: r_def)
  have "\<bar>real_of_int k - y\<bar> \<le> 1 / 2"
    unfolding d using r by (simp add: k abs_if)
  then show "\<bar>real_of_int (round_half_even y) - y\<bar> \<le> 1 / 2" by (simp add: k_def)
  have "even k" if "\<bar>real_of_int k - y\<bar> = 1 / 2"
    using that r unfolding d by (simp add: k abs_if split: if_splits)
  then show "even (round_half_even y)" if "\<bar>real_of_int (round_half_even y) - y\<bar> = 1 / 2"
    using that by (simp add: k_def)
qed

lemma round_double_nearest:
  assumes "x \<noteq> 0"
  shows "\<exists>m. round_double x = real_of_int m * pow2 (binary_exponent x - 52)
            \<and> 2 ^ 52 \<le> \<bar>m\<bar> \<and> \<bar>m\<bar> \<le> 2 ^ 53
            \<and> \<bar>round_double x - x\<bar> \<le> pow2 (binary_exponent x - 52) / 2
            \<and> (\<bar>round_double x - x\<bar> = pow2 (binary_exponent x - 52) / 2 \<longrightarrow> even m)"
proof -
  define u where "u = pow2 (binary_exponent x - 52)"
  define y where "y = \<bar>x\<bar> / u"
  define k where "k = round_half_even y"
  define s :: int where "s = (if 0 < x then 1 else - 1)"
  have u: "0 < u" by (simp add: u_def pow2_pos)
  have sx: "sgn x = real_of_int s" "\<bar>x\<bar> = real_of_int s * x" "\<bar>s\<bar> = 1"
    using assms by (auto simp: s_def sgn_if)
  have ay: "\<bar>x\<bar> = y * u" using u by (simp add: y_def)
  have rd: "round_double x = real_of_int s * real_of_int k * u"
    using assms by (simp add: round_double_def u_def y_def k_def sx(1))
  have "binary_exponent x = (binary_exponent x - 52) + 52" by simp
  then have "pow2 (binary_exponent x) = u * pow2 52" unfolding u_def by (metis pow2_add)
  moreover have "pow2 52 = 2 ^ 52" by (simp add: pow2_def)
  ultimately have p52: "pow2 (binary_exponent x) = u * 2 ^ 52" by simp
  have "binary_exponent x + 1 = (binary_exponent x - 52) + 53" by simp
  then have "pow2 (binary_exponent x + 1) = u * pow2 53" unfolding u_def by (metis pow2_add)
  moreover have "pow2 53 = 2 ^ 53" by (simp add: pow2_def)
  ultimately have p53: "pow2 (binary_exponent x + 1) = u * 2 ^ 53" by simp
  from binary_exponent_bounds[OF assms] have "u * 2 ^ 52 \<le> y * u" "y * u < u * 2 ^ 53"
    unfolding p52 p53 ay by simp_all
  then have yr: "2 ^ 52 \<le> y" "y < 2 ^ 53" using u by simp_all
  have near: "\<bar>real_of_int k - y\<bar> \<le> 1 / 2" unfolding k_def by (rule round_half_even_near)
  have yn: "(4503599627370496::real) \<le> y" "y < (9007199254740992::real)" using yr by simp_all
  have "real_of_int 4503599627370496 - 1 / 2 \<le> real_of_int k" using near yn(1) by linarith
  then have "(4503599627370496::int) \<le> k" by linarith
  then have k_lo: "2 ^ 52 \<le> k" by simp
  have "real_of_int k < real_of_int 9007199254740992 + 1 / 2" using near yn(2) by linarith
  then have "k \<le> (9007199254740992::int)" by linarith
  then have k_hi: "k \<le> 2 ^ 53" by simp
  have xs: "x = real_of_int s * (y * u)"
    using assms ay by (auto simp: s_def abs_if split: if_splits)
  have "real_of_int s * real_of_int k * u - real_of_int s * (y * u)
      = real_of_int s * u * (real_of_int k - y)"
    by (simp add: algebra_simps)
  with xs rd have "round_double x - x = real_of_int s * u * (real_of_int k - y)"
    by simp
  then have "\<bar>round_double x - x\<bar> = \<bar>real_of_int s\<bar> * \<bar>u\<bar> * \<bar>real_of_int k - y\<bar>"
    by (simp only: abs_mult)
  also have "\<bar>real_of_int s\<bar> = 1" by (simp add: s_def)
  also have "\<bar>u\<bar> = u" using u by simp
  finally have err: "\<bar>round_double x - x\<bar> = u * \<bar>real_of_int k - y\<bar>" by simp
  have e1: "\<bar>round_double x - x\<bar> \<le> u / 2"
    unfolding err using near u by (simp add: field_simps)
  have e2: "even (s * k)" if "\<bar>round_double x - x\<bar> = u / 2"
  proof -
    from that have "\<bar>real_of_int k - y\<bar> = 1 / 2" unfolding err using u by (simp add: field_simps)
    then have "even k" unfolding k_def by (rule round_half_even_near)
    then show ?thesis by simp
  qed
  have m_abs: "\<bar>s * k\<bar> = k" using k_lo by (simp add: s_def abs_mult)
  have "round_double x = real_of_int (s * k) * u" by (simp add: rd)
  with k_lo k_hi e1 e2 m_abs show ?thesis
    unfolding u_def[symmetric] by (intro exI[of _ "s * k"]) simp
qed

text \<open>
  Values of the model at inputs where binary64 arithmetic is known: the two kinds of
  tie, a negative number, a number below one, \<open>6 * 0.1 = 0.6000000000000001\<close> and
  \<open>1 - 6 * 0.1 = 0.3999999999999999\<close>.
\<close>

lemma round_double_examples:
  "round_double 9007199254740993 = 9007199254740992
   \<and> round_double 9007199254740995 = 9007199254740996
   \<and> round_double (- 9007199254740993) = - 9007199254740992
   \<and> round_double (9007199254740993 / 18014398509481984) = 1 / 2
   \<and> round_double (1 / 3) = 6004799503160661 / 18014398509481984
   \<and> round_double 3 = 3
   \<and> float_mul (float_of_int 6) lit_0_1 = 1351079888211149 / 2251799813685248
   \<and> float_sub 1 (float_mul (float_of_int 6) lit_0_1) = 900719925474099 / 2251799813685248
   \<and> float_sub 2 (1 / 2) = 3 / 2"
  by code_simp

lemma py_int_examples:
  "py_int (3 / 2) = 1 \<and> py_int (- 3 / 2) = - 1 \<and> py_int (4503599627370495 / 2251799813685248) = 1"
  by (simp add: py_int_def)

section \<open>Provider selection: the candidates and the pool\<close>

text \<open>The float of the literal \<open>0.1\<close> is the binary64 number next to one tenth.\<close>

lemma lit_0_1_value: "lit_0_1 = 3602879701896397 / 36028797018963968"
  by code_simp

lemma copies_pos: "0 < copies p"
  by (simp add: copies_def)

lemma set_weighted_providers: "set (weighted_providers cs) = set cs"
  using copies_pos by (auto simp: weighted_providers_def)

lemma weighted_providers_Nil: "weighted_providers cs = [] \<longleftrightarrow> cs = []"
  using set_weighted_providers[of cs] by (metis set_empty)

lemma random_choice_in: "seq \<noteq> [] \<Longrightarrow> random_choice seq rnd \<in> set seq"
  by (simp add: random_choice_def)

lemma mcp_subset:
  "set (model_compatible_providers providers request) \<subseteq> set (healthy_providers providers)"
  by (auto simp: model_compatible_providers_def Let_def)

lemma mcp_Nil: "model_compatible_providers providers request = [] \<longleftrightarrow> providers = []"
  by (auto simp: model_compatible_providers_def Let_def healthy_providers_def healthy_filter_def)

lemma select_in:
  "providers \<noteq> [] \<Longrightarrow>
     \<exists>p. select_provider providers request rnd = Some p \<and> p \<in> set (healthy_providers providers)"
  using mcp_subset[of providers request]
    random_choice_in[of "weighted_providers (model_compatible_providers providers request)" rnd]
  by (auto simp: select_provider_def mcp_Nil weighted_providers_Nil set_weighted_providers)

lemma select_position:
  "i < length (weighted_providers (model_compatible_providers providers request)) \<Longrightarrow>
     select_provider providers request i
       = Some (weighted_providers (model_compatible_providers providers request) ! i)"
proof -
  assume i: "i < length (weighted_providers (model_compatible_providers providers request))"
  then have "model_compatible_providers providers request \<noteq> []"
    by (auto simp: weighted_providers_def)
  with i show ?thesis
    by (simp add: select_provider_def random_choice_def)
qed

lemma select_reaches:
  "p \<in> set (model_compatible_providers providers request) \<Longrightarrow>
     \<exists>r. select_provider providers request r = Some p"
proof -
  assume "p \<in> set (model_compatible_providers providers request)"
  then have "p \<in> set (weighted_providers (model_compatible_providers providers request))"
    by (simp add: set_weighted_providers)
  then obtain i where "i < length (weighted_providers (model_compatible_providers providers request))"
      "weighted_providers (model_compatible_providers providers request) ! i = p"
    by (auto simp: in_set_conv_nth)
  with select_position[of i providers request] show ?thesis by auto
qed

lemma count_list_replicate_eq: "count_list (replicate n x) y = (if x = y then n else 0)"
  by (induction n) auto

lemma count_weighted: "count_list (weighted_providers cs) p = count_list cs p * copies p"
  by (induction cs) (auto simp: weighted_providers_def count_list_replicate_eq)

lemma max_py_int: "max 1 (py_int x) = max 1 \<lfloor>x\<rfloor>"
  by (auto simp: py_int_def max_def)

lemma mcp_init:
  "model_compatible_providers init_providers (hello_request ''deepseek-chat'' True) = [deepseek]"
  by (simp add: model_compatible_providers_def healthy_providers_def healthy_filter_def
      init_providers_def hello_request_def deepseek_def lingyiwanwu_def ollama_def)

lemma mcp_init_gpt4:
  "model_compatible_providers init_providers (hello_request ''gpt-4'' True) = init_providers"
  by (simp add: model_compatible_providers_def healthy_providers_def healthy_filter_def
      init_providers_def hello_request_def deepseek_def lingyiwanwu_def ollama_def)

lemma adjusted_deepseek: "adjusted_weight deepseek = 3"
  by code_simp

lemma adjusted_half: "adjusted_weight half_second_provider = 3 / 2"
  by code_simp

lemma adjusted_failing: "adjusted_weight failing_provider = 4503599627370495 / 2251799813685248"
  by code_simp

lemma copies_deepseek: "copies deepseek = 3"
  by (simp add: copies_def adjusted_deepseek py_int_def)

lemma wp_deepseek: "weighted_providers [deepseek] = [deepseek, deepseek, deepseek]"
  by (simp add: weighted_providers_def copies_deepseek numeral_3_eq_3)

lemma spec_copies_deepseek: "spec_copies deepseek = 6"
  by (simp add: spec_copies_def spec_effective_weight_def deepseek_def)

lemma copies_half: "copies half_second_provider = 1"
  by (simp add: copies_def adjusted_half py_int_def)

lemma spec_copies_half: "spec_copies half_second_provider = 2"
  by (simp add: spec_copies_def spec_effective_weight_def half_second_provider_def deepseek_def
      round_def)

lemma hf_one: "healthy_filter [deepseek, half_second_provider, ollama] = [half_second_provider]"
  by (simp add: healthy_filter_def deepseek_def half_second_provider_def ollama_def)

lemma hf_init: "healthy_filter init_providers = []"
  by (simp add: healthy_filter_def init_providers_def deepseek_def lingyiwanwu_def ollama_def)

text \<open>
  C5. When some configured provider is healthy with fewer than 5 consecutive errors,
  the selector returns a provider, and that provider is one of the configured
  providers that are healthy with fewer than 5 errors; the candidates are then the
  filtered providers that support the requested model, or all filtered providers when
  none does. When no provider passes the filter, the candidates are taken from the
  full provider list in the same way: the providers of the full list that support
  the requested model, or the full list itself when none does; the selector returns
  one of them, and returns nothing only when no provider is configured. Every
  candidate is returned for some draw.
\<close>

theorem select_provider_prefers_healthy:
  "(healthy_filter providers \<noteq> [] \<longrightarrow>
      (\<exists>p. select_provider providers request rnd = Some p \<and> p \<in> set providers
           \<and> status p = HEALTHY \<and> error_count p < 5))
   \<and> (healthy_filter providers = [] \<and> providers \<noteq> [] \<longrightarrow>
      (\<exists>p. select_provider providers request rnd = Some p \<and> p \<in> set providers))
   \<and> (providers = [] \<longrightarrow> select_provider providers request rnd = None)
   \<and> (healthy_filter providers = [] \<longrightarrow>
        model_compatible_providers providers request
          = (if filter (\<lambda>p. model request \<in> set (models p)) providers = [] then providers
             else filter (\<lambda>p. model request \<in> set (models p)) providers))
   \<and> (healthy_filter providers \<noteq> [] \<longrightarrow>
        model_compatible_providers providers request
          = (if filter (\<lambda>p. model request \<in> set (models p))
                  (filter (\<lambda>p. status p = HEALTHY \<and> error_count p < 5) providers) = []
             then filter (\<lambda>p. status p = HEALTHY \<and> error_count p < 5) providers
             else filter (\<lambda>p. model request \<in> set (models p))
                    (filter (\<lambda>p. status p = HEALTHY \<and> error_count p < 5) providers)))
   \<and> (\<forall>p \<in> set (model_compatible_providers providers request).
         \<exists>r. select_provider providers request r = Some p)"
proof (intro conjI impI ballI)
  assume h: "healthy_filter providers \<noteq> []"
  then have ne: "providers \<noteq> []" by (auto simp: healthy_filter_def)
  from h have "healthy_providers providers = healthy_filter providers"
    by (simp add: healthy_providers_def)
  with select_in[OF ne, of request rnd]
  show "\<exists>p. select_provider providers request rnd = Some p \<and> p \<in> set providers
           \<and> status p = HEALTHY \<and> error_count p < 5"
    by (auto simp: healthy_filter_def)
next
  assume "healthy_filter providers = [] \<and> providers \<noteq> []"
  then show "\<exists>p. select_provider providers request rnd = Some p \<and> p \<in> set providers"
    using select_in[of providers request rnd] by (auto simp: healthy_providers_def)
next
  assume "providers = []"
  then show "select_provider providers request rnd = None"
    by (simp add: select_provider_def mcp_Nil)
next
  assume "healthy_filter providers = []"
  then show "model_compatible_providers providers request
          = (if filter (\<lambda>p. model request \<in> set (models p)) providers = [] then providers
             else filter (\<lambda>p. model request \<in> set (models p)) providers)"
    by (simp add: model_compatible_providers_def healthy_providers_def)
next
  assume "healthy_filter providers \<noteq> []"
  then show "model_compatible_providers providers request
          = (if filter (\<lambda>p. model request \<in> set (models p))
                  (filter (\<lambda>p. status p = HEALTHY \<and> error_count p < 5) providers) = []
             then filter (\<lambda>p. status p = HEALTHY \<and> error_count p < 5) providers
             else filter (\<lambda>p. model request \<in> set (models p))
                    (filter (\<lambda>p. status p = HEALTHY \<and> error_count p < 5) providers))"
    by (simp add: model_compatible_providers_def healthy_providers_def healthy_filter_def)
next
  fix p assume "p \<in> set (model_compatible_providers providers request)"
  then show "\<exists>r. select_provider providers request r = Some p"
    by (rule select_reaches)
qed

theorem select_provider_prefers_healthy_witness:
  "healthy_filter [deepseek, half_second_provider, ollama] \<noteq> []
   \<and> select_provider [deepseek, half_second_provider, ollama] (hello_request ''llama3.2'' True) 5
       = Some half_second_provider
   \<and> healthy_filter init_providers = [] \<and> init_providers \<noteq> []
   \<and> (\<exists>p. select_provider init_providers (hello_request ''gpt-4'' True) 5 = Some p
          \<and> p \<in> set init_providers)
   \<and> model_compatible_providers init_providers (hello_request ''gpt-4'' True) = init_providers
   \<and> (\<exists>r. select_provider init_providers (hello_request ''gpt-4'' True) r = Some ollama)
   \<and> select_provider [] (hello_request ''gpt-4'' True) 5 = None"
proof -
  have a: "healthy_filter [deepseek, half_second_provider, ollama] \<noteq> []"
    by (simp add: hf_one)
  have b: "healthy_filter init_providers = [] \<and> init_providers \<noteq> []"
    using hf_init by (simp add: init_providers_def)
  from select_provider_prefers_healthy[of "[deepseek, half_second_provider, ollama]"
         "hello_request ''llama3.2'' True" 5] a
  obtain p where p: "select_provider [deepseek, half_second_provider, ollama]
        (hello_request ''llama3.2'' True) 5 = Some p"
      "p \<in> set [deepseek, half_second_provider, ollama]" "status p = HEALTHY"
    by blast
  then have "p = half_second_provider"
    by (auto simp: deepseek_def ollama_def)
  with p have c: "select_provider [deepseek, half_second_provider, ollama]
        (hello_request ''llama3.2'' True) 5 = Some half_second_provider"
    by simp
  note t = select_provider_prefers_healthy[of init_providers "hello_request ''gpt-4'' True" 5]
  from t b
  have d: "\<exists>p. select_provider init_providers (hello_request ''gpt-4'' True) 5 = Some p
          \<and> p \<in> set init_providers"
    by blast
  from t b have "model_compatible_providers init_providers (hello_request ''gpt-4'' True)
          = (if filter (\<lambda>p. model (hello_request ''gpt-4'' True) \<in> set (models p)) init_providers = []
             then init_providers
             else filter (\<lambda>p. model (hello_request ''gpt-4'' True) \<in> set (models p)) init_providers)"
    by blast
  then have f: "model_compatible_providers init_providers (hello_request ''gpt-4'' True)
      = init_providers"
    by (simp add: init_providers_def hello_request_def deepseek_def lingyiwanwu_def ollama_def)
  have "ollama \<in> set (model_compatible_providers init_providers (hello_request ''gpt-4'' True))"
    unfolding f by (simp add: init_providers_def)
  with t have g: "\<exists>r. select_provider init_providers (hello_request ''gpt-4'' True) r = Some ollama"
    by blast
  from select_provider_prefers_healthy[of "[]" "hello_request ''gpt-4'' True" 5]
  have e: "select_provider [] (hello_request ''gpt-4'' True) 5 = None"
    by blast
  from a b c d e f g show ?thesis by blast
qed

text \<open>
  C1, as the specification words it, fails on the code at two inputs. The provider
  \<open>deepseek\<close> as configured (static weight 3, response time 0, no errors) is the only
  candidate for the model \<open>deepseek-chat\<close>; the pool holds it 3 times, where
  \<open>max(1, round(3 * 2.0 * 1.0))\<close> is 6: the latency factor is skipped while the
  response time is 0. A provider of static weight 1 that answers in half a second
  has the weight 1.5 either way; the pool holds it once, since \<open>int\<close> truncates, where
  \<open>round\<close> gives 2. Every number of the two computations is a binary64 number, so
  no rounding takes part.
\<close>

theorem selection_pool_spec_counterexample:
  "count_list (weighted_providers (model_compatible_providers init_providers
        (hello_request ''deepseek-chat'' True))) deepseek = 3
   \<and> spec_copies deepseek = 6
   \<and> count_list (weighted_providers [half_second_provider]) half_second_provider = 1
   \<and> spec_copies half_second_provider = 2"
  by (simp add: mcp_init count_weighted copies_deepseek spec_copies_deepseek copies_half
      spec_copies_half)

text \<open>
  C1, amended. For providers whose static weight, error counter and response time
  are below \<open>2^300\<close> in magnitude, the weight of a candidate in step 3 is computed in
  double precision, every operation rounded to nearest: the static weight as a
  float, times the latency factor \<open>max(0.1, 2.0 - response_time)\<close> when the response
  time is positive (and not at all otherwise), times the error factor
  \<open>max(0.1, 1.0 - error_count * 0.1)\<close>. The pool holds every occurrence of a
  candidate \<open>max(1, int(weight))\<close> times, the weight truncated, and the provider
  returned is the pool's element at the drawn position: every position of the pool
  is returned by one draw. With static weight 5 and 6 errors the rounded weight is
  just below 2 and the pool holds the provider once.
\<close>

theorem selection_pool_weights:
  "list_all in_double_range (p # candidates @ providers) \<longrightarrow>
   adjusted_weight p =
     float_mul
       (if response_time p > 0
        then float_mul (float_of_int (weight p)) (max lit_0_1 (float_sub 2 (response_time p)))
        else float_of_int (weight p))
       (max lit_0_1 (float_sub 1 (float_mul (float_of_int (error_count p)) lit_0_1)))
   \<and> count_list (weighted_providers candidates) p
       = count_list candidates p * nat (max 1 \<lfloor>adjusted_weight p\<rfloor>)
   \<and> (\<forall>i < length (weighted_providers (model_compatible_providers providers request)).
         select_provider providers request i
           = Some (weighted_providers (model_compatible_providers providers request) ! i))"
proof (intro conjI allI impI)
  show "adjusted_weight p =
     float_mul
       (if response_time p > 0
        then float_mul (float_of_int (weight p)) (max lit_0_1 (float_sub 2 (response_time p)))
        else float_of_int (weight p))
       (max lit_0_1 (float_sub 1 (float_mul (float_of_int (error_count p)) lit_0_1)))"
    by (simp add: adjusted_weight_def time_factor_def error_factor_def)
next
  show "count_list (weighted_providers candidates) p
       = count_list candidates p * nat (max 1 \<lfloor>adjusted_weight p\<rfloor>)"
    by (simp add: count_weighted copies_def max_py_int)
next
  fix i
  assume "i < length (weighted_providers (model_compatible_providers providers request))"
  then show "select_provider providers request i
           = Some (weighted_providers (model_compatible_providers providers request) ! i)"
    by (rule select_position)
qed

theorem selection_pool_weights_witness:
  "list_all in_double_range (failing_provider # [failing_provider] @ init_providers)
   \<and> adjusted_weight failing_provider = 4503599627370495 / 2251799813685248
   \<and> count_list (weighted_providers [failing_provider]) failing_provider = 1
   \<and> (2::nat) < length (weighted_providers (model_compatible_providers init_providers
        (hello_request ''deepseek-chat'' True)))
   \<and> select_provider init_providers (hello_request ''deepseek-chat'' True) 2 = Some deepseek"
proof -
  have r: "list_all in_double_range (failing_provider # [failing_provider] @ init_providers)"
    by (simp add: in_double_range_def failing_provider_def init_providers_def deepseek_def
        lingyiwanwu_def ollama_def)
  have len: "(2::nat) < length (weighted_providers (model_compatible_providers init_providers
        (hello_request ''deepseek-chat'' True)))"
    by (simp add: mcp_init wp_deepseek)
  note t = selection_pool_weights[of failing_provider "[failing_provider]" init_providers
         "hello_request ''deepseek-chat'' True"]
  from t r have "count_list (weighted_providers [failing_provider]) failing_provider
       = count_list [failing_provider] failing_provider
           * nat (max 1 \<lfloor>adjusted_weight failing_provider\<rfloor>)"
    by blast
  then have c: "count_list (weighted_providers [failing_provider]) failing_provider = 1"
    by (simp add: adjusted_failing)
  from t r len
  have "select_provider init_providers (hello_request ''deepseek-chat'' True) 2
           = Some (weighted_providers (model_compatible_providers init_providers
        (hello_request ''deepseek-chat'' True)) ! 2)"
    by blast
  with len r c show ?thesis by (simp add: mcp_init wp_deepseek adjusted_failing)
qed

section \<open>Health probe: the two outcomes\<close>

text \<open>
  C6. A probe answered with status 200 (the provider has a model to probe with)
  leaves the provider healthy with error counter 0, and its response time is the
  elapsed probe time, whatever it was before. Every other outcome (another status,
  an exception of the call, or the exception of building the probe request) returns
  False, leaves the provider unhealthy, adds one to its error counter and stores the
  time of the check.
\<close>

theorem health_check_provider_outcome:
  "(models provider \<noteq> [] \<longrightarrow>
      health_check_provider provider (ProbeResponse 200) start_time t_response t_check
        = (True, provider\<lparr>response_time := t_response - start_time, last_check := t_check,
                           status := HEALTHY, error_count := 0\<rparr>))
   \<and> (models provider = [] \<or> outcome \<noteq> ProbeResponse 200 \<longrightarrow>
        \<not> fst (health_check_provider provider outcome start_time t_response t_check)
        \<and> status (snd (health_check_provider provider outcome start_time t_response t_check))
            = UNHEALTHY
        \<and> error_count (snd (health_check_provider provider outcome start_time t_response t_check))
            = error_count provider + 1
        \<and> last_check (snd (health_check_provider provider outcome start_time t_response t_check))
            = t_check)"
  by (auto simp: health_check_provider_def probe_failed_def models_0_def Let_def
      split: list.splits probe.splits)

theorem health_check_provider_outcome_witness:
  "models deepseek \<noteq> []
   \<and> health_check_provider deepseek (ProbeResponse 200) 10 10.25 10.5
        = (True, deepseek\<lparr>response_time := 0.25, last_check := 10.5, status := HEALTHY\<rparr>)
   \<and> ProbeResponse 503 \<noteq> ProbeResponse 200
   \<and> snd (health_check_provider deepseek (ProbeResponse 503) 10 10.25 10.5)
        = deepseek\<lparr>response_time := 0.25, last_check := 10.5, status := UNHEALTHY,
                   error_count := 1\<rparr>
   \<and> error_count (snd (health_check_provider deepseek
          (ProbeRaises (TimeoutException ''timed out'')) 10 10.25 10.5)) = 1"
  using health_check_provider_outcome[of deepseek 10 "10.25" "10.5" "ProbeResponse 503"]
    health_check_provider_outcome[of deepseek 10 "10.25" "10.5"
      "ProbeRaises (TimeoutException ''timed out'')"]
  by (simp add: deepseek_def health_check_provider_def models_0_def)

section \<open>Streaming: upstream errors and clean completion\<close>

text \<open>
  The decoder at well-formed and ill-formed input of every length, the rendering of
  exceptions, and the \<open>except\<close> clauses of the two transports at concrete inputs.
\<close>

lemma decode_ignore_examples:
  "decode_ignore [CHR ''a'', CHR 0xFF, CHR ''b''] = [CHR ''a'', CHR ''b'']
   \<and> decode_ignore [CHR 0xC3, CHR 0xA9, CHR ''x''] = [CHR 0xC3, CHR 0xA9, CHR ''x'']
   \<and> decode_ignore [CHR 0xC3, CHR ''x''] = [CHR ''x'']
   \<and> decode_ignore [CHR 0xC3] = []
   \<and> decode_ignore [CHR 0xC0, CHR 0x80, CHR ''a''] = [CHR ''a'']
   \<and> decode_ignore [CHR 0xC1, CHR 0xBF, CHR ''a''] = [CHR ''a'']
   \<and> decode_ignore [CHR 0x80, CHR ''a''] = [CHR ''a'']
   \<and> decode_ignore [CHR 0xBF] = []
   \<and> decode_ignore [CHR 0xE2, CHR 0x82, CHR 0xAC, CHR ''z''] = [CHR 0xE2, CHR 0x82, CHR 0xAC, CHR ''z'']
   \<and> decode_ignore [CHR 0xE2, CHR 0x82, CHR ''z''] = [CHR ''z'']
   \<and> decode_ignore [CHR 0xE2, CHR 0x82] = []
   \<and> decode_ignore [CHR 0xE2, CHR ''z''] = [CHR ''z'']
   \<and> decode_ignore [CHR 0xE0, CHR 0x80, CHR 0x80, CHR ''a''] = [CHR ''a'']
   \<and> decode_ignore [CHR 0xE0, CHR 0x9F, CHR 0xBF, CHR ''a''] = [CHR ''a'']
   \<and> decode_ignore [CHR 0xE0, CHR 0xA0, CHR 0x80, CHR ''a''] = [CHR 0xE0, CHR 0xA0, CHR 0x80, CHR ''a'']
   \<and> decode_ignore [CHR 0xED, CHR 0xA0, CHR 0x80, CHR ''a''] = [CHR ''a'']
   \<and> decode_ignore [CHR 0xED, CHR 0x9F, CHR 0xBF, CHR ''a''] = [CHR 0xED, CHR 0x9F, CHR 0xBF, CHR ''a'']
   \<and> decode_ignore [CHR 0xF0, CHR 0x9F, CHR 0x98, CHR 0x80, CHR ''!''] = [CHR 0xF0, CHR 0x9F, CHR 0x98, CHR 0x80, CHR ''!'']
   \<and> decode_ignore [CHR 0xF0, CHR 0x9F, CHR 0x98, CHR ''!''] = [CHR ''!'']
   \<and> decode_ignore [CHR 0xF0, CHR 0x9F, CHR ''!''] = [CHR ''!'']
   \<and> decode_ignore [CHR 0xF0, CHR ''!''] = [CHR ''!'']
   \<and> decode_ignore [CHR 0xF0, CHR 0x8F, CHR 0xBF, CHR 0xBF, CHR ''a''] = [CHR ''a'']
   \<and> decode_ignore [CHR 0xF0, CHR 0x90, CHR 0x80, CHR 0x80, CHR ''a''] = [CHR 0xF0, CHR 0x90, CHR 0x80, CHR 0x80, CHR ''a'']
   \<and> decode_ignore [CHR 0xF4, CHR 0x8F, CHR 0xBF, CHR 0xBF, CHR ''a''] = [CHR 0xF4, CHR 0x8F, CHR 0xBF, CHR 0xBF, CHR ''a'']
   \<and> decode_ignore [CHR 0xF4, CHR 0x90, CHR 0x80, CHR 0x80, CHR ''a''] = [CHR ''a'']
   \<and> decode_ignore [CHR 0xF5, CHR 0x80, CHR 0x80, CHR 0x80, CHR ''a''] = [CHR ''a'']
   \<and> decode_ignore [CHR 0xF0, CHR 0x9F, CHR 0x98] = []
   \<and> decode_ignore [CHR 0xE2, CHR 0x82, CHR 0xE2, CHR 0x82, CHR 0xAC] = [CHR 0xE2, CHR 0x82, CHR 0xAC]
   \<and> decode_ignore [CHR 0xF0, CHR 0x9F, CHR 0xC3, CHR 0xA9] = [CHR 0xC3, CHR 0xA9]"
  by (simp add: Let_def is_continuation_def)

lemma py_repr_examples:
  "py_repr ''model'' = [CHR 0x27] @ ''model'' @ [CHR 0x27]
   \<and> py_repr [CHR ''a'', CHR 0x27, CHR ''b''] = [CHR 0x22, CHR ''a'', CHR 0x27, CHR ''b'', CHR 0x22]
   \<and> str_exn (KeyError ''model'') = [CHR 0x27] @ ''model'' @ [CHR 0x27]
   \<and> str_exn (HTTPException 504 ''Timeout'') = ''504: Timeout''"
  by (simp add: py_repr_def repr_char_def str_int_def str_nat.simps digit_char_def Let_def)

lemma except_clauses_examples:
  "generator_except deepseek (ConnectError ''refused'')
     = (ErrorEvent \<lparr>err_type = ''connection_error'', err_code = None,
          err_message = ''Failed to connect to deepseek: refused'',
          err_provider = ''deepseek'', err_connection_id = None\<rparr>,
        deepseek\<lparr>error_count := 1\<rparr>)
   \<and> generator_except deepseek (KeyError ''model'')
     = (ErrorEvent \<lparr>err_type = ''stream_error'', err_code = None,
          err_message = ''Stream error from deepseek: '' @ [CHR 0x27] @ ''model'' @ [CHR 0x27],
          err_provider = ''deepseek'', err_connection_id = None\<rparr>,
        deepseek\<lparr>error_count := 1\<rparr>)
   \<and> asgi_except (new_streamer 0 ''asgi_1'') deepseek (ConnectError ''refused'')
     = ([ResponseStart 500
           [(''content-type'', ''text/event-stream''), (''x-router-error'', ''connection_error''),
            (''x-connection-id'', ''asgi_1'')],
         ResponseBody
           (ErrorEvent \<lparr>err_type = ''connection_error'', err_code = None,
              err_message = ''Connection failed: refused'',
              err_provider = ''deepseek'', err_connection_id = Some ''asgi_1''\<rparr>) False],
        (new_streamer 0 ''asgi_1'')\<lparr>is_headers_sent := True, streamer_error_count := 1\<rparr>)
   \<and> asgi_except ((new_streamer 0 ''asgi_1'')\<lparr>is_headers_sent := True\<rparr>) deepseek
         (OtherException ''broken'')
     = ([ResponseBody
           (ErrorEvent \<lparr>err_type = ''stream_error'', err_code = None,
              err_message = ''Stream error: broken'',
              err_provider = ''deepseek'', err_connection_id = Some ''asgi_1''\<rparr>) False],
        (new_streamer 0 ''asgi_1'')\<lparr>is_headers_sent := True, streamer_error_count := 1\<rparr>)"
  by (simp add: generator_except_def asgi_except_def send_error_response_def new_streamer_def
      deepseek_def py_repr_def repr_char_def Let_def)

lemma map_ok:
  "models provider \<noteq> [] \<Longrightarrow> \<exists>m. map_model_name requested_model provider = Inr m"
  by (auto simp: map_model_name_def models_0_hd split: option.splits)

lemma asgi_map_ok:
  "models provider \<noteq> [] \<Longrightarrow> \<exists>m. asgi_map_model_name requested_model provider = Inr m"
  by (auto simp: asgi_map_model_name_def models_0_hd split: option.splits)

lemma generator_except_event:
  "\<exists>info. generator_except provider e
      = (ErrorEvent info, provider\<lparr>error_count := error_count provider + 1\<rparr>)
     \<and> err_provider info = name provider \<and> err_code info = None
     \<and> err_type info = (case e of ConnectError m \<Rightarrow> ''connection_error''
                          | TimeoutException m \<Rightarrow> ''timeout_error''
                          | _ \<Rightarrow> ''stream_error'')"
  by (cases e) (simp_all add: generator_except_def)

lemma asgi_except_event:
  "is_headers_sent streamer \<Longrightarrow>
   \<exists>info. asgi_except streamer provider e
      = ([ResponseBody (ErrorEvent info) False],
         streamer\<lparr>streamer_error_count := streamer_error_count streamer + 1\<rparr>)
     \<and> err_provider info = name provider \<and> err_code info = None
     \<and> err_type info = (case e of ConnectError m \<Rightarrow> ''connection_error''
                          | TimeoutException m \<Rightarrow> ''timeout_error''
                          | _ \<Rightarrow> ''stream_error'')"
  by (cases e) (simp_all add: asgi_except_def send_error_response_def)

lemma generator_raise:
  "\<exists>info. fst (let (ev, provider') = generator_except provider e in ([ev], provider'))
       = [ErrorEvent info]
     \<and> err_provider info = name provider \<and> err_code info = None
     \<and> err_type info = (case e of ConnectError m \<Rightarrow> ''connection_error''
                          | TimeoutException m \<Rightarrow> ''timeout_error''
                          | _ \<Rightarrow> ''stream_error'')"
  using generator_except_event[of provider e] by auto

lemma asgi_raise:
  "\<exists>info. fst (let (sent, streamer') = asgi_except (streamer\<lparr>is_headers_sent := True\<rparr>) provider e
               in (start # sent, streamer', provider))
       = [start, ResponseBody (ErrorEvent info) False]
     \<and> err_provider info = name provider \<and> err_code info = None
     \<and> err_type info = (case e of ConnectError m \<Rightarrow> ''connection_error''
                          | TimeoutException m \<Rightarrow> ''timeout_error''
                          | _ \<Rightarrow> ''stream_error'')"
  using asgi_except_event[of "streamer\<lparr>is_headers_sent := True\<rparr>" provider e] by auto

text \<open>
  C2, as the specification words it, fails when the upstream answers with a status
  other than 200 and reading its error body raises: the exception is handled by the
  clauses for stream failures, and the one error event the caller gets has no status
  code. Here the read of the body of a 503 answer times out, on either transport.
\<close>

theorem streaming_error_body_unread_counterexample:
  "fst (stream_generator deepseek 0 1
          (Response 503 (Inl (TimeoutException ''read timed out'')) [] None))
     = [ErrorEvent \<lparr>err_type = ''timeout_error'', err_code = None,
          err_message = ''Request to deepseek timed out: read timed out'',
          err_provider = ''deepseek'', err_connection_id = None\<rparr>]
   \<and> fst (stream_response (new_streamer 0 ''asgi_1'') deepseek (hello_request ''gpt-4'' True)
          (Response 503 (Inl (TimeoutException ''read timed out'')) [] None))
     = [ResponseStart 200
          [(''content-type'', ''text/event-stream''), (''cache-control'', ''no-cache''),
           (''connection'', ''keep-alive''), (''x-router-provider'', ''deepseek''),
           (''x-asgi-streaming'', ''true''), (''x-router-method'', ''asgi-parameter-optimized''),
           (''x-connection-id'', ''asgi_1'')],
        ResponseBody
          (ErrorEvent \<lparr>err_type = ''timeout_error'', err_code = None,
             err_message = ''Request timeout: read timed out'',
             err_provider = ''deepseek'', err_connection_id = Some ''asgi_1''\<rparr>) False]"
  by (simp add: stream_generator_def generator_except_def stream_response_def asgi_except_def
      send_error_response_def asgi_map_model_name_def model_mapping_def models_0_def
      response_start_def new_streamer_def hello_request_def deepseek_def)

text \<open>
  C2, amended. When the upstream answers a streaming call with a status other than
  200 and its error body is read, the buffered generator yields exactly one event,
  the error event of type \<open>provider_error\<close> with the upstream status code, the
  provider name and as message the body decoded as UTF-8 with ill-formed bytes
  dropped; the direct relay sends, after the response start, exactly one body
  message, final (\<open>more_body\<close> false), the error event of type \<open>upstream_error\<close> with
  the same three fields. When reading the error body raises, or when opening the
  stream raises, each transport hands on exactly one error event with the provider
  name and no status code, of type \<open>connection_error\<close> for a ConnectError,
  \<open>timeout_error\<close> for a timeout and \<open>stream_error\<close> otherwise. In every case no
  chunk of the upstream is handed on. The direct relay is stated for a provider
  with a model list that is not empty: only then does it contact the upstream.
\<close>

theorem streaming_upstream_error_event:
  "(status_code \<noteq> 200 \<longrightarrow>
      fst (stream_generator provider start_time t_connected
             (Response status_code (Inr error_text) chunks failure))
        = [ErrorEvent \<lparr>err_type = ''provider_error'', err_code = Some status_code,
             err_message = decode_ignore error_text, err_provider = name provider,
             err_connection_id = None\<rparr>]
      \<and> (\<exists>info. fst (stream_generator provider start_time t_connected
                        (Response status_code (Inl e) chunks failure))
                  = [ErrorEvent info]
            \<and> err_provider info = name provider \<and> err_code info = None
            \<and> err_type info = (case e of ConnectError m \<Rightarrow> ''connection_error''
                                 | TimeoutException m \<Rightarrow> ''timeout_error''
                                 | _ \<Rightarrow> ''stream_error''))
      \<and> (models provider \<noteq> [] \<longrightarrow>
           fst (stream_response streamer provider request
                  (Response status_code (Inr error_text) chunks failure))
             = [response_start streamer provider,
                ResponseBody
                  (ErrorEvent \<lparr>err_type = ''upstream_error'', err_code = Some status_code,
                     err_message = decode_ignore error_text, err_provider = name provider,
                     err_connection_id = Some (connection_id streamer)\<rparr>) False]
           \<and> (\<exists>info. fst (stream_response streamer provider request
                             (Response status_code (Inl e) chunks failure))
                  = [response_start streamer provider, ResponseBody (ErrorEvent info) False]
                \<and> err_provider info = name provider \<and> err_code info = None
                \<and> err_type info = (case e of ConnectError m \<Rightarrow> ''connection_error''
                                     | TimeoutException m \<Rightarrow> ''timeout_error''
                                     | _ \<Rightarrow> ''stream_error''))))
   \<and> (\<exists>info. fst (stream_generator provider start_time t_connected (ConnectRaises e))
                = [ErrorEvent info]
          \<and> err_provider info = name provider \<and> err_code info = None
          \<and> err_type info = (case e of ConnectError m \<Rightarrow> ''connection_error''
                               | TimeoutException m \<Rightarrow> ''timeout_error''
                               | _ \<Rightarrow> ''stream_error''))
   \<and> (models provider \<noteq> [] \<longrightarrow>
        (\<exists>info. fst (stream_response streamer provider request (ConnectRaises e))
                = [response_start streamer provider, ResponseBody (ErrorEvent info) False]
          \<and> err_provider info = name provider \<and> err_code info = None
          \<and> err_type info = (case e of ConnectError m \<Rightarrow> ''connection_error''
                               | TimeoutException m \<Rightarrow> ''timeout_error''
                               | _ \<Rightarrow> ''stream_error'')))"
proof (intro conjI impI)
  assume "status_code \<noteq> 200"
  then show "fst (stream_generator provider start_time t_connected
             (Response status_code (Inr error_text) chunks failure))
        = [ErrorEvent \<lparr>err_type = ''provider_error'', err_code = Some status_code,
             err_message = decode_ignore error_text, err_provider = name provider,
             err_connection_id = None\<rparr>]"
    by (simp add: stream_generator_def Let_def)
next
  assume st: "status_code \<noteq> 200"
  let ?p = "provider\<lparr>response_time := (response_time provider + (t_connected - start_time)) / 2\<rparr>"
  from generator_raise[of ?p e] st
  show "\<exists>info. fst (stream_generator provider start_time t_connected
                        (Response status_code (Inl e) chunks failure))
                  = [ErrorEvent info]
            \<and> err_provider info = name provider \<and> err_code info = None
            \<and> err_type info = (case e of ConnectError m \<Rightarrow> ''connection_error''
                                 | TimeoutException m \<Rightarrow> ''timeout_error''
                                 | _ \<Rightarrow> ''stream_error'')"
    by (simp add: stream_generator_def Let_def)
next
  assume st: "status_code \<noteq> 200" and m: "models provider \<noteq> []"
  from asgi_map_ok[OF m, of "model request"] obtain am
    where "asgi_map_model_name (model request) provider = Inr am" by blast
  with st show "fst (stream_response streamer provider request
                  (Response status_code (Inr error_text) chunks failure))
             = [response_start streamer provider,
                ResponseBody
                  (ErrorEvent \<lparr>err_type = ''upstream_error'', err_code = Some status_code,
                     err_message = decode_ignore error_text, err_provider = name provider,
                     err_connection_id = Some (connection_id streamer)\<rparr>) False]"
    by (simp add: stream_response_def Let_def response_start_def)
next
  assume st: "status_code \<noteq> 200" and m: "models provider \<noteq> []"
  from asgi_map_ok[OF m, of "model request"] obtain am
    where am: "asgi_map_model_name (model request) provider = Inr am" by blast
  from asgi_raise[of streamer provider e "response_start streamer provider"] am st
  show "\<exists>info. fst (stream_response streamer provider request
                             (Response status_code (Inl e) chunks failure))
                  = [response_start streamer provider, ResponseBody (ErrorEvent info) False]
                \<and> err_provider info = name provider \<and> err_code info = None
                \<and> err_type info = (case e of ConnectError m \<Rightarrow> ''connection_error''
                                     | TimeoutException m \<Rightarrow> ''timeout_error''
                                     | _ \<Rightarrow> ''stream_error'')"
    by (simp add: stream_response_def Let_def)
next
  from generator_raise[of provider e]
  show "\<exists>info. fst (stream_generator provider start_time t_connected (ConnectRaises e))
                = [ErrorEvent info]
          \<and> err_provider info = name provider \<and> err_code info = None
          \<and> err_type info = (case e of ConnectError m \<Rightarrow> ''connection_error''
                               | TimeoutException m \<Rightarrow> ''timeout_error''
                               | _ \<Rightarrow> ''stream_error'')"
    by (simp add: stream_generator_def)
next
  assume m: "models provider \<noteq> []"
  from asgi_map_ok[OF m, of "model request"] obtain am
    where am: "asgi_map_model_name (model request) provider = Inr am" by blast
  from asgi_raise[of streamer provider e "response_start streamer provider"] am
  show "\<exists>info. fst (stream_response streamer provider request (ConnectRaises e))
                = [response_start streamer provider, ResponseBody (ErrorEvent info) False]
          \<and> err_provider info = name provider \<and> err_code info = None
          \<and> err_type info = (case e of ConnectError m \<Rightarrow> ''connection_error''
                               | TimeoutException m \<Rightarrow> ''timeout_error''
                               | _ \<Rightarrow> ''stream_error'')"
    by (simp add: stream_response_def Let_def)
qed

lemma decode_example: "decode_ignore [CHR ''a'', CHR 0xFF, CHR ''b''] = ''ab''"
  by (simp add: Let_def)

theorem streaming_upstream_error_event_witness:
  "(503::int) \<noteq> 200 \<and> models deepseek \<noteq> []
   \<and> fst (stream_generator deepseek 0 1
            (Response 503 (Inr [CHR ''a'', CHR 0xFF, CHR ''b'']) [''x''] None))
        = [ErrorEvent \<lparr>err_type = ''provider_error'', err_code = Some 503,
             err_message = ''ab'', err_provider = ''deepseek'',
             err_connection_id = None\<rparr>]
   \<and> fst (stream_response (new_streamer 0 ''asgi_1'') deepseek (hello_request ''gpt-4'' True)
             (Response 503 (Inr [CHR ''a'', CHR 0xFF, CHR ''b'']) [''x''] None))
        = [ResponseStart 200
             [(''content-type'', ''text/event-stream''), (''cache-control'', ''no-cache''),
              (''connection'', ''keep-alive''), (''x-router-provider'', ''deepseek''),
              (''x-asgi-streaming'', ''true''), (''x-router-method'', ''asgi-parameter-optimized''),
              (''x-connection-id'', ''asgi_1'')],
           ResponseBody
             (ErrorEvent \<lparr>err_type = ''upstream_error'', err_code = Some 503,
                err_message = ''ab'', err_provider = ''deepseek'',
                err_connection_id = Some ''asgi_1''\<rparr>) False]"
  using streaming_upstream_error_event[of 503 deepseek 0 1 "[CHR ''a'', CHR 0xFF, CHR ''b'']"
      "[''x'']" None "ConnectError []" "new_streamer 0 ''asgi_1''" "hello_request ''gpt-4'' True"]
    decode_example
  by (simp add: deepseek_def new_streamer_def response_start_def)

text \<open>
  C3. On a clean completion (status 200, the chunked read ends without an
  exception) the caller is sent, on both transports, the response start, every
  non-empty upstream chunk in order as a body message with \<open>more_body\<close> true, and
  last the end of the stream, an empty body with \<open>more_body\<close> false: the direct
  relay sends it itself, and for the buffered generator the StreamingResponse the
  handler returned sends it when the generator ends. Both leave the provider's
  error counter at \<open>max(0, error_count - 1)\<close>. The direct relay is stated for a
  provider with a model list that is not empty: only then does it contact the
  upstream.
\<close>

theorem streaming_clean_completion:
  "run_relay (StreamingResponse provider (Generator actual_model start_time) headers)
       t_connected (Response 200 body chunks None)
     = Relayed
         (streaming_response_start headers
            # map (\<lambda>chunk. ResponseBody (Chunk chunk) True) (filter (\<lambda>chunk. chunk \<noteq> []) chunks)
            @ [ResponseBody (Chunk []) False])
         None
         (provider\<lparr>response_time := (response_time provider + (t_connected - start_time)) / 2,
                   error_count := max 0 (error_count provider - 1)\<rparr>)
   \<and> (models provider \<noteq> [] \<longrightarrow>
        run_relay (ASGIStreamingResponse streamer provider request)
            t_connected (Response 200 body chunks None)
          = Relayed
              (response_start streamer provider
                 # map (\<lambda>chunk. ResponseBody (Chunk chunk) True)
                     (filter (\<lambda>chunk. chunk \<noteq> []) chunks)
                 @ [ResponseBody (Chunk []) False])
              (Some (streamer\<lparr>is_headers_sent := True,
                       chunks_sent := chunks_sent streamer
                                       + length (filter (\<lambda>chunk. chunk \<noteq> []) chunks),
                       total_bytes_sent := total_bytes_sent streamer
                                       + sum_list (map length (filter (\<lambda>chunk. chunk \<noteq> []) chunks))\<rparr>))
              (provider\<lparr>error_count := max 0 (error_count provider - 1)\<rparr>))"
proof (intro conjI impI)
  show "run_relay (StreamingResponse provider (Generator actual_model start_time) headers)
       t_connected (Response 200 body chunks None)
     = Relayed
         (streaming_response_start headers
            # map (\<lambda>chunk. ResponseBody (Chunk chunk) True) (filter (\<lambda>chunk. chunk \<noteq> []) chunks)
            @ [ResponseBody (Chunk []) False])
         None
         (provider\<lparr>response_time := (response_time provider + (t_connected - start_time)) / 2,
                   error_count := max 0 (error_count provider - 1)\<rparr>)"
    by (simp add: run_relay_def error_handled_stream_def stream_generator_def Let_def
        streaming_response_send_def forwarded_chunks_def comp_def)
next
  assume m: "models provider \<noteq> []"
  from asgi_map_ok[OF m, of "model request"] obtain am
    where am: "asgi_map_model_name (model request) provider = Inr am" by blast
  then show "run_relay (ASGIStreamingResponse streamer provider request)
            t_connected (Response 200 body chunks None)
          = Relayed
              (response_start streamer provider
                 # map (\<lambda>chunk. ResponseBody (Chunk chunk) True)
                     (filter (\<lambda>chunk. chunk \<noteq> []) chunks)
                 @ [ResponseBody (Chunk []) False])
              (Some (streamer\<lparr>is_headers_sent := True,
                       chunks_sent := chunks_sent streamer
                                       + length (filter (\<lambda>chunk. chunk \<noteq> []) chunks),
                       total_bytes_sent := total_bytes_sent streamer
                                       + sum_list (map length (filter (\<lambda>chunk. chunk \<noteq> []) chunks))\<rparr>))
              (provider\<lparr>error_count := max 0 (error_count provider - 1)\<rparr>)"
    by (simp add: run_relay_def stream_response_def Let_def response_start_def relayed_def
        forwarded_chunks_def)
qed

theorem streaming_clean_completion_witness:
  "models deepseek \<noteq> []
   \<and> run_relay (ASGIStreamingResponse (new_streamer 0 ''asgi_1'') (deepseek\<lparr>error_count := 3\<rparr>)
          (hello_request ''gpt-4'' True)) 1 (Response 200 (Inr []) [''ab'', [], ''cd''] None)
       = Relayed
           [ResponseStart 200
              [(''content-type'', ''text/event-stream''), (''cache-control'', ''no-cache''),
               (''connection'', ''keep-alive''), (''x-router-provider'', ''deepseek''),
               (''x-asgi-streaming'', ''true''), (''x-router-method'', ''asgi-parameter-optimized''),
               (''x-connection-id'', ''asgi_1'')],
            ResponseBody (Chunk ''ab'') True, ResponseBody (Chunk ''cd'') True,
            ResponseBody (Chunk []) False]
           (Some ((new_streamer 0 ''asgi_1'')\<lparr>is_headers_sent := True, chunks_sent := 2,
                    total_bytes_sent := 4\<rparr>))
           (deepseek\<lparr>error_count := 2\<rparr>)
   \<and> run_relay (StreamingResponse deepseek (Generator ''deepseek-chat'' 0)
          (streaming_headers deepseek (demo_user_001 ''2024-12-19T08:00:00'')))
          1 (Response 200 (Inr []) [''ab'', [], ''cd''] None)
       = Relayed
           [ResponseStart 200
              [(''cache-control'', ''no-cache''), (''connection'', ''keep-alive''),
               (''x-router-provider'', ''deepseek''), (''x-router-user'', ''demo_user_001''),
               (''x-streaming-type'', ''fastapi-improved''),
               (''x-router-recommendation'', ''use-asgi-streaming''),
               (''content-type'', ''text/event-stream; charset=utf-8'')],
            ResponseBody (Chunk ''ab'') True, ResponseBody (Chunk ''cd'') True,
            ResponseBody (Chunk []) False]
           None
           (deepseek\<lparr>response_time := 1 / 2\<rparr>)"
  using streaming_clean_completion[of deepseek "''deepseek-chat''" 0
          "streaming_headers deepseek (demo_user_001 ''2024-12-19T08:00:00'')" 1 "Inr []"
          "[''ab'', [], ''cd'']" "new_streamer 0 ''asgi_1''" "hello_request ''gpt-4'' True"]
    streaming_clean_completion[of "deepseek\<lparr>error_count := 3\<rparr>" "''deepseek-chat''" 0
          "streaming_headers deepseek (demo_user_001 ''2024-12-19T08:00:00'')" 1 "Inr []"
          "[''ab'', [], ''cd'']" "new_streamer 0 ''asgi_1''" "hello_request ''gpt-4'' True"]
  by (simp add: deepseek_def new_streamer_def response_start_def streaming_response_start_def
      streaming_headers_def demo_user_001_def lower_char_def)

section \<open>Non-streaming forwarding: failure and success\<close>

lemma post_request_failure:
  "rep = PostRaises (ConnectError m) \<or> rep = PostRaises (TimeoutException m)
     \<or> (rep = Reply status_code response_text result \<and> status_code \<noteq> 200) \<Longrightarrow>
   \<exists>e. fst (post_request provider start_time t_response timestamp rep) = Inl e
     \<and> error_count (snd (post_request provider start_time t_response timestamp rep))
         = error_count provider + 1"
  by (auto simp: post_request_def post_try_def Let_def)

text \<open>
  C4 against the code. A non-streaming call that ends in a ConnectError, a timeout or
  a status other than 200 adds one to the provider's error counter in the clause that
  handles it and raises an HTTPException (502, 504, the upstream status); the outer
  \<open>except Exception\<close> of \<open>forward_request\<close> catches that HTTPException, adds one
  again and raises status 502 in its place. The counter ends two higher and the three
  conditions reach the caller under the same status.
\<close>

theorem forward_request_failure_counted_twice:
  "stream request \<noteq> Some True \<and> models provider \<noteq> []
   \<and> (rep = PostRaises (ConnectError m) \<or> rep = PostRaises (TimeoutException m)
        \<or> (rep = Reply status_code response_text result \<and> status_code \<noteq> 200)) \<longrightarrow>
   (\<exists>detail. fst (forward_request provider request start_time t_response timestamp rep)
       = Inl (HTTPException 502 detail))
   \<and> error_count (snd (forward_request provider request start_time t_response timestamp rep))
       = error_count provider + 2"
proof (intro impI)
  assume h: "stream request \<noteq> Some True \<and> models provider \<noteq> []
   \<and> (rep = PostRaises (ConnectError m) \<or> rep = PostRaises (TimeoutException m)
        \<or> (rep = Reply status_code response_text result \<and> status_code \<noteq> 200))"
  then obtain am where am: "map_model_name (model request) provider = Inr am"
    using map_ok by blast
  from h post_request_failure[of rep m status_code response_text result provider start_time
      t_response timestamp]
  obtain e where e: "fst (post_request provider start_time t_response timestamp rep) = Inl e"
     "error_count (snd (post_request provider start_time t_response timestamp rep))
         = error_count provider + 1"
    by blast
  obtain r p' where rp: "post_request provider start_time t_response timestamp rep = (r, p')"
    by (cases "post_request provider start_time t_response timestamp rep")
  with e have "r = Inl e" "error_count p' = error_count provider + 1" by simp_all
  with h am rp show "(\<exists>detail. fst (forward_request provider request start_time t_response timestamp rep)
       = Inl (HTTPException 502 detail))
   \<and> error_count (snd (forward_request provider request start_time t_response timestamp rep))
       = error_count provider + 2"
    by (simp add: forward_request_def forward_request_try_def)
qed

theorem forward_request_failure_counted_twice_witness:
  "stream (hello_request ''gpt-4'' False) \<noteq> Some True \<and> models deepseek \<noteq> []
   \<and> error_count (snd (forward_request deepseek (hello_request ''gpt-4'' False) 0 1 ''t''
        (PostRaises (TimeoutException ''timed out'')))) = 2
   \<and> error_count (snd (forward_request deepseek (hello_request ''gpt-4'' False) 0 1 ''t''
        (PostRaises (ConnectError ''refused'')))) = 2
   \<and> error_count (snd (forward_request deepseek (hello_request ''gpt-4'' False) 0 1 ''t''
        (Reply 429 ''rate limited'' (Inr (JObject []))))) = 2"
  using forward_request_failure_counted_twice[of "hello_request ''gpt-4'' False" deepseek
      "PostRaises (TimeoutException ''timed out'')" "''timed out''" 0 "[]" "Inr (JObject [])" 0 1 "''t''"]
   forward_request_failure_counted_twice[of "hello_request ''gpt-4'' False" deepseek
      "PostRaises (ConnectError ''refused'')" "''refused''" 0 "[]" "Inr (JObject [])" 0 1 "''t''"]
   forward_request_failure_counted_twice[of "hello_request ''gpt-4'' False" deepseek
      "Reply 429 ''rate limited'' (Inr (JObject []))" "[]" 429 "''rate limited''" "Inr (JObject [])" 0 1 "''t''"]
  by (simp add: hello_request_def deepseek_def)

lemma map_of_set_item: "map_of (set_item kvs k v) = (map_of kvs)(k \<mapsto> v)"
  by (induction kvs) (auto simp: fun_eq_iff)

lemma keys_set_item:
  "map fst (set_item kvs k v) = (if k \<in> fst ` set kvs then map fst kvs else map fst kvs @ [k])"
  by (induction kvs) force+

text \<open>
  C7, as the specification words it, fails on two kinds of answers with status 200.
  When the upstream body has a field \<open>_router_info\<close> of its own, the assignment
  replaces it. When the body is not JSON, or is JSON but not an object, decoding or
  the assignment raises: no body is returned, the call ends in an HTTPException and
  the error counter goes up.
\<close>

theorem router_info_overwrite_counterexample:
  "fst (forward_request deepseek (hello_request ''gpt-4'' False) 0 1 ''2024-12-19T10:00:00''
          (Reply 200 [] (Inr (JObject upstream_body))))
     = Inr (Result [(''id'', JString ''chatcmpl-1''),
                    (''_router_info'', router_info deepseek 1 ''2024-12-19T10:00:00'')])
   \<and> map_of upstream_body ''_router_info'' = Some (JString ''upstream'')
   \<and> forward_request deepseek (hello_request ''gpt-4'' False) 0 1 ''2024-12-19T10:00:00''
          (Reply 200 ''<html>'' (Inl (OtherException ''Expecting value'')))
     = (Inl (HTTPException 502 ''Provider error: Expecting value''),
        deepseek\<lparr>response_time := 1 / 2, error_count := 1\<rparr>)
   \<and> forward_request deepseek (hello_request ''gpt-4'' False) 0 1 ''2024-12-19T10:00:00''
          (Reply 200 ''[]'' (Inr (JArray [])))
     = (Inl (HTTPException 502
               ''Provider error: list indices must be integers or slices, not str''),
        deepseek\<lparr>response_time := 1 / 2, error_count := 1\<rparr>)"
  by (simp add: forward_request_def forward_request_try_def post_request_def post_try_def
      map_model_name_def model_mapping_def models_0_def hello_request_def deepseek_def
      upstream_body_def router_info_def item_assignment_error_def)

text \<open>
  C7, amended. A non-streaming call to a provider with a model list that is not
  empty, answered with status 200 and a body that decodes to a JSON object, returns
  that object with the field \<open>_router_info\<close> set to the block of provider name,
  measured latency, timestamp and \<open>streaming = false\<close>: an upstream field of that
  name is replaced where it stands, otherwise the block is added at the end, and
  every other field is as the upstream sent it, in the same order. The provider's
  response time becomes \<open>(old + new) / 2\<close> and its error counter
  \<open>max(0, error_count - 1)\<close>.
\<close>

theorem forward_request_success:
  "stream request \<noteq> Some True \<and> models provider \<noteq> [] \<longrightarrow>
     forward_request provider request start_time t_response timestamp
         (Reply 200 response_text (Inr (JObject body)))
       = (Inr (Result (set_item body ''_router_info''
                 (JObject [(''provider'', JString (name provider)),
                           (''response_time'', JFloat (t_response - start_time)),
                           (''timestamp'', JString timestamp),
                           (''streaming'', JBool False)]))),
          provider\<lparr>response_time := (response_time provider + (t_response - start_time)) / 2,
                    error_count := max 0 (error_count provider - 1)\<rparr>)
     \<and> map_of (set_item body ''_router_info'' info) ''_router_info'' = Some info
     \<and> (\<forall>k. k \<noteq> ''_router_info'' \<longrightarrow>
           map_of (set_item body ''_router_info'' info) k = map_of body k)
     \<and> map fst (set_item body ''_router_info'' info)
         = (if ''_router_info'' \<in> fst ` set body then map fst body
            else map fst body @ [''_router_info''])"
proof (intro impI conjI allI)
  assume h: "stream request \<noteq> Some True \<and> models provider \<noteq> []"
  then obtain am where am: "map_model_name (model request) provider = Inr am"
    using map_ok by blast
  with h show "forward_request provider request start_time t_response timestamp
         (Reply 200 response_text (Inr (JObject body)))
       = (Inr (Result (set_item body ''_router_info''
                 (JObject [(''provider'', JString (name provider)),
                           (''response_time'', JFloat (t_response - start_time)),
                           (''timestamp'', JString timestamp),
                           (''streaming'', JBool False)]))),
          provider\<lparr>response_time := (response_time provider + (t_response - start_time)) / 2,
                    error_count := max 0 (error_count provider - 1)\<rparr>)"
    by (simp add: forward_request_def forward_request_try_def post_request_def post_try_def
        Let_def router_info_def)
next
  show "map_of (set_item body ''_router_info'' info) ''_router_info'' = Some info"
    by (simp add: map_of_set_item)
next
  fix k :: string assume "k \<noteq> ''_router_info''"
  then show "map_of (set_item body ''_router_info'' info) k = map_of body k"
    by (simp add: map_of_set_item)
next
  show "map fst (set_item body ''_router_info'' info)
         = (if ''_router_info'' \<in> fst ` set body then map fst body
            else map fst body @ [''_router_info''])"
    by (rule keys_set_item)
qed

theorem forward_request_success_witness:
  "stream (hello_request ''gpt-4'' False) \<noteq> Some True \<and> models deepseek \<noteq> []
   \<and> forward_request (deepseek\<lparr>response_time := 3, error_count := 0\<rparr>)
         (hello_request ''gpt-4'' False) 0 1 ''2024-12-19T10:00:00''
         (Reply 200 [] (Inr (JObject [(''id'', JString ''chatcmpl-1'')])))
       = (Inr (Result [(''id'', JString ''chatcmpl-1''),
                       (''_router_info'',
                        JObject [(''provider'', JString ''deepseek''),
                                 (''response_time'', JFloat 1),
                                 (''timestamp'', JString ''2024-12-19T10:00:00''),
                                 (''streaming'', JBool False)])]),
          deepseek\<lparr>response_time := 2, error_count := 0\<rparr>)"
  using forward_request_success[of "hello_request ''gpt-4'' False"
         "deepseek\<lparr>response_time := 3, error_count := 0\<rparr>" 0 1 "''2024-12-19T10:00:00''"
         "[]" "[(''id'', JString ''chatcmpl-1'')]" JNull]
  by (simp add: hello_request_def deepseek_def)

section \<open>Quota\<close>

text \<open>
  C9. An active user whose last request was made today and whose \<open>requests_today\<close>
  equals the daily limit is rejected with status 429. The quota check leaves the user
  as it is on the day of the last request, and sets \<open>requests_today\<close> to 0 when the
  date of the last request is not today: the reset happens in the check and nowhere
  else. After such a rollover an active user with a positive daily limit is admitted.
\<close>

theorem quota_check_and_rollover:
  "(verify_api_key cfg key now = Some user_info \<and> is_active user_info
      \<and> take 10 (last_request user_info) = today
      \<and> requests_today user_info = daily_limit user_info \<longrightarrow>
      (\<exists>detail. authenticate cfg key now today
          = (Inl (HTTPException 429 detail), Some user_info)))
   \<and> (take 10 (last_request user_info) = today \<longrightarrow>
        snd (check_quota user_info today) = user_info)
   \<and> (take 10 (last_request user_info) \<noteq> today \<longrightarrow>
        snd (check_quota user_info today) = user_info\<lparr>requests_today := 0\<rparr>)
   \<and> (verify_api_key cfg key now = Some user_info \<and> is_active user_info
      \<and> take 10 (last_request user_info) \<noteq> today \<and> 0 < daily_limit user_info \<longrightarrow>
      authenticate cfg key now today
        = (Inr (user_info\<lparr>requests_today := 0\<rparr>), Some (user_info\<lparr>requests_today := 0\<rparr>)))"
  by (auto simp: authenticate_def check_quota_def Let_def)

theorem quota_check_and_rollover_witness:
  "verify_api_key (exhausted_config ''2024-12-19T08:00:00'') ''sk-user-demo-key-001''
       ''2024-12-19T09:00:00''
     = Some ((demo_user_001 ''2024-12-19T08:00:00'')\<lparr>requests_today := 500\<rparr>)
   \<and> (\<exists>detail. authenticate (exhausted_config ''2024-12-19T08:00:00'') ''sk-user-demo-key-001''
          ''2024-12-19T09:00:00'' ''2024-12-19''
        = (Inl (HTTPException 429 detail),
           Some ((demo_user_001 ''2024-12-19T08:00:00'')\<lparr>requests_today := 500\<rparr>)))
   \<and> authenticate (exhausted_config ''2024-12-19T08:00:00'') ''sk-user-demo-key-001''
          ''2024-12-20T09:00:00'' ''2024-12-20''
        = (Inr ((demo_user_001 ''2024-12-19T08:00:00'')\<lparr>requests_today := 0\<rparr>),
           Some ((demo_user_001 ''2024-12-19T08:00:00'')\<lparr>requests_today := 0\<rparr>))"
proof -
  let ?u = "(demo_user_001 ''2024-12-19T08:00:00'')\<lparr>requests_today := 500\<rparr>"
  let ?cfg = "exhausted_config ''2024-12-19T08:00:00''"
  have v: "\<And>now. verify_api_key ?cfg ''sk-user-demo-key-001'' now = Some ?u"
    by (simp add: verify_api_key_def exhausted_config_def)
  have a: "is_active ?u" "requests_today ?u = daily_limit ?u" "0 < daily_limit ?u"
    by (simp_all add: demo_user_001_def)
  have d1: "take 10 (last_request ?u) = ''2024-12-19''"
    by (simp add: demo_user_001_def)
  have d2: "take 10 (last_request ?u) \<noteq> ''2024-12-20''"
    by (simp add: demo_user_001_def)
  from quota_check_and_rollover[of ?cfg "''sk-user-demo-key-001''" "''2024-12-19T09:00:00''"
         ?u "''2024-12-19''"] v a d1
  have r1: "\<exists>detail. authenticate ?cfg ''sk-user-demo-key-001''
          ''2024-12-19T09:00:00'' ''2024-12-19'' = (Inl (HTTPException 429 detail), Some ?u)"
    by blast
  from quota_check_and_rollover[of ?cfg "''sk-user-demo-key-001''" "''2024-12-20T09:00:00''"
         ?u "''2024-12-20''"] v a d2
  have r2: "authenticate ?cfg ''sk-user-demo-key-001'' ''2024-12-20T09:00:00'' ''2024-12-20''
        = (Inr (?u\<lparr>requests_today := 0\<rparr>), Some (?u\<lparr>requests_today := 0\<rparr>))"
    by blast
  from v r1 r2 show ?thesis by simp
qed

section \<open>Statistics of a streaming request\<close>

lemma select_flags:
  "select_provider providers (request\<lparr>stream := s, x_use_asgi_streaming := a\<rparr>) rnd
     = select_provider providers request rnd"
  by (simp add: select_provider_def model_compatible_providers_def)

lemma select_some:
  "providers \<noteq> [] \<Longrightarrow>
     \<exists>p. select_provider providers request rnd = Some p \<and> p \<in> set providers"
  using select_in[of providers request rnd]
  by (auto simp: healthy_providers_def healthy_filter_def split: if_splits)

lemma forward_request_stream:
  "models provider \<noteq> [] \<Longrightarrow> stream request = Some True \<Longrightarrow>
     \<exists>m. forward_request provider request start_time t_response timestamp rep
        = (Inr (Generator m start_time), provider)"
  using map_ok[of provider "model request"]
  by (auto simp: forward_request_def forward_request_try_def)

lemma run_relay_generator:
  "run_relay (StreamingResponse provider result headers) t up \<noteq> NoStream"
  by (simp add: run_relay_def split: prod.splits)

lemma run_relay_asgi:
  "run_relay (ASGIStreamingResponse streamer provider request) t up \<noteq> NoStream"
  by (simp add: run_relay_def split: prod.splits)

text \<open>
  C10. With at least one provider configured, every provider having a model and an
  entry in \<open>provider_usage\<close>, a streaming request on \<open>/v1/chat/completions\<close> (either
  transport) and any request on \<open>/v1/chat/completions/asgi\<close> ends with
  \<open>successful_requests\<close> one higher and \<open>failed_requests\<close> unchanged, whatever the
  upstream does once the relay runs: the handler counts the success and returns
  before the relay reads from the upstream, and the relay does not touch the
  statistics.
\<close>

theorem streaming_counted_successful:
  "providers \<noteq> []
   \<and> (\<forall>p \<in> set providers. models p \<noteq> [] \<and> provider_usage stats (name p) \<noteq> None) \<longrightarrow>
   (stream chat_request = Some True \<longrightarrow>
      successful_requests (fst (serve_chat_completions stats providers user_info chat_request
          asgi_from_data asgi_from_header rnd now conn_id start_time t_forward t_response
          timestamp rep t_connected up))
        = successful_requests stats + 1
      \<and> failed_requests (fst (serve_chat_completions stats providers user_info chat_request
          asgi_from_data asgi_from_header rnd now conn_id start_time t_forward t_response
          timestamp rep t_connected up))
        = failed_requests stats
      \<and> snd (serve_chat_completions stats providers user_info chat_request
          asgi_from_data asgi_from_header rnd now conn_id start_time t_forward t_response
          timestamp rep t_connected up)
        \<noteq> NoStream)
   \<and> successful_requests (fst (serve_chat_completions_asgi stats providers user_info
          chat_request rnd now conn_id start_time t_connected up))
        = successful_requests stats + 1
   \<and> failed_requests (fst (serve_chat_completions_asgi stats providers user_info
          chat_request rnd now conn_id start_time t_connected up))
        = failed_requests stats
   \<and> snd (serve_chat_completions_asgi stats providers user_info
          chat_request rnd now conn_id start_time t_connected up) \<noteq> NoStream"
proof (intro impI)
  assume h: "providers \<noteq> []
   \<and> (\<forall>p \<in> set providers. models p \<noteq> [] \<and> provider_usage stats (name p) \<noteq> None)"
  then obtain p where p: "select_provider providers chat_request rnd = Some p" "p \<in> set providers"
    using select_some by blast
  with h have m: "models p \<noteq> []" and "provider_usage stats (name p) \<noteq> None" by auto
  then obtain n where n: "provider_usage stats (name p) = Some n" by auto
  have asgi: "successful_requests (fst (serve_chat_completions_asgi stats providers user_info
          chat_request rnd now conn_id start_time t_connected up))
        = successful_requests stats + 1
   \<and> failed_requests (fst (serve_chat_completions_asgi stats providers user_info
          chat_request rnd now conn_id start_time t_connected up))
        = failed_requests stats
   \<and> snd (serve_chat_completions_asgi stats providers user_info
          chat_request rnd now conn_id start_time t_connected up) \<noteq> NoStream"
    using p n
    by (simp add: serve_chat_completions_asgi_def chat_completions_asgi_def select_flags
        count_usage_def count_successful_def run_relay_asgi)
  have main: "stream chat_request = Some True \<Longrightarrow>
      successful_requests (fst (serve_chat_completions stats providers user_info chat_request
          asgi_from_data asgi_from_header rnd now conn_id start_time t_forward t_response
          timestamp rep t_connected up))
        = successful_requests stats + 1
      \<and> failed_requests (fst (serve_chat_completions stats providers user_info chat_request
          asgi_from_data asgi_from_header rnd now conn_id start_time t_forward t_response
          timestamp rep t_connected up))
        = failed_requests stats
      \<and> snd (serve_chat_completions stats providers user_info chat_request
          asgi_from_data asgi_from_header rnd now conn_id start_time t_forward t_response
          timestamp rep t_connected up)
        \<noteq> NoStream"
  proof -
    assume s: "stream chat_request = Some True"
    from forward_request_stream[OF m s, of t_forward t_response timestamp rep]
    obtain am where am: "forward_request p chat_request t_forward t_response timestamp rep
        = (Inr (Generator am t_forward), p)" by blast
    show ?thesis
      using p n s am
      by (simp add: serve_chat_completions_def chat_completions_def Let_def
        count_usage_def count_successful_def run_relay_asgi run_relay_generator)
  qed
  from asgi main show "(stream chat_request = Some True \<longrightarrow>
      successful_requests (fst (serve_chat_completions stats providers user_info chat_request
          asgi_from_data asgi_from_header rnd now conn_id start_time t_forward t_response
          timestamp rep t_connected up))
        = successful_requests stats + 1
      \<and> failed_requests (fst (serve_chat_completions stats providers user_info chat_request
          asgi_from_data asgi_from_header rnd now conn_id start_time t_forward t_response
          timestamp rep t_connected up))
        = failed_requests stats
      \<and> snd (serve_chat_completions stats providers user_info chat_request
          asgi_from_data asgi_from_header rnd now conn_id start_time t_forward t_response
          timestamp rep t_connected up)
        \<noteq> NoStream)
   \<and> successful_requests (fst (serve_chat_completions_asgi stats providers user_info
          chat_request rnd now conn_id start_time t_connected up))
        = successful_requests stats + 1
   \<and> failed_requests (fst (serve_chat_completions_asgi stats providers user_info
          chat_request rnd now conn_id start_time t_connected up))
        = failed_requests stats
   \<and> snd (serve_chat_completions_asgi stats providers user_info
          chat_request rnd now conn_id start_time t_connected up) \<noteq> NoStream"
    by blast
qed

theorem streaming_counted_successful_witness:
  "init_providers \<noteq> []
   \<and> list_all (\<lambda>p. models p \<noteq> [] \<and> provider_usage init_stats (name p) \<noteq> None)
         init_providers
   \<and> successful_requests (fst (serve_chat_completions init_stats init_providers
         (demo_user_001 ''2024-12-19T08:00:00'') (hello_request ''gpt-4'' True) False False 4
         ''2024-12-19T09:00:00'' ''asgi_1'' 0 0 0 [] (PostRaises (OtherException [])) 1
         (ConnectRaises (ConnectError ''refused'')))) = 1
   \<and> failed_requests (fst (serve_chat_completions init_stats init_providers
         (demo_user_001 ''2024-12-19T08:00:00'') (hello_request ''gpt-4'' True) False False 4
         ''2024-12-19T09:00:00'' ''asgi_1'' 0 0 0 [] (PostRaises (OtherException [])) 1
         (ConnectRaises (ConnectError ''refused'')))) = 0
   \<and> successful_requests (fst (serve_chat_completions_asgi init_stats init_providers
         (demo_user_001 ''2024-12-19T08:00:00'') (hello_request ''gpt-4'' True) 4
         ''2024-12-19T09:00:00'' ''asgi_1'' 0 1 (Response 500 (Inr ''down'') [] None))) = 1
   \<and> failed_requests (fst (serve_chat_completions_asgi init_stats init_providers
         (demo_user_001 ''2024-12-19T08:00:00'') (hello_request ''gpt-4'' True) 4
         ''2024-12-19T09:00:00'' ''asgi_1'' 0 1 (Response 500 (Inr ''down'') [] None))) = 0"
proof -
  have h: "init_providers \<noteq> []
   \<and> (\<forall>p \<in> set init_providers. models p \<noteq> [] \<and> provider_usage init_stats (name p) \<noteq> None)"
    by (simp add: init_providers_def init_stats_def deepseek_def lingyiwanwu_def ollama_def)
  have s: "stream (hello_request ''gpt-4'' True) = Some True"
    by (simp add: hello_request_def)
  have z: "successful_requests init_stats = 0" "failed_requests init_stats = 0"
    by (simp_all add: init_stats_def)
  from streaming_counted_successful[of init_providers init_stats "hello_request ''gpt-4'' True"
      "demo_user_001 ''2024-12-19T08:00:00''" False False 4 "''2024-12-19T09:00:00''" "''asgi_1''"
      0 0 0 "[]" "PostRaises (OtherException [])" 1 "ConnectRaises (ConnectError ''refused'')"] h s z
  have a: "successful_requests (fst (serve_chat_completions init_stats init_providers
         (demo_user_001 ''2024-12-19T08:00:00'') (hello_request ''gpt-4'' True) False False 4
         ''2024-12-19T09:00:00'' ''asgi_1'' 0 0 0 [] (PostRaises (OtherException [])) 1
         (ConnectRaises (ConnectError ''refused'')))) = 1
   \<and> failed_requests (fst (serve_chat_completions init_stats init_providers
         (demo_user_001 ''2024-12-19T08:00:00'') (hello_request ''gpt-4'' True) False False 4
         ''2024-12-19T09:00:00'' ''asgi_1'' 0 0 0 [] (PostRaises (OtherException [])) 1
         (ConnectRaises (ConnectError ''refused'')))) = 0"
    by simp
  from streaming_counted_successful[of init_providers init_stats "hello_request ''gpt-4'' True"
      "demo_user_001 ''2024-12-19T08:00:00''" False False 4 "''2024-12-19T09:00:00''" "''asgi_1''"
      0 0 0 "[]" "PostRaises (OtherException [])" 1 "Response 500 (Inr ''down'') [] None"] h z
  have b: "successful_requests (fst (serve_chat_completions_asgi init_stats init_providers
         (demo_user_001 ''2024-12-19T08:00:00'') (hello_request ''gpt-4'' True) 4
         ''2024-12-19T09:00:00'' ''asgi_1'' 0 1 (Response 500 (Inr ''down'') [] None))) = 1
   \<and> failed_requests (fst (serve_chat_completions_asgi init_stats init_providers
         (demo_user_001 ''2024-12-19T08:00:00'') (hello_request ''gpt-4'' True) 4
         ''2024-12-19T09:00:00'' ''asgi_1'' 0 1 (Response 500 (Inr ''down'') [] None))) = 0"
    by simp
  from h a b show ?thesis by (simp add: list_all_iff)
qed

end
